theory Spec2Isabelle
  imports Complex_Main "HOL-Library.Word"
begin

section \<open>Identifiers: \<open>GenerateId\<close> and \<open>ValidateId\<close>\<close>

text \<open>
  Go strings are byte sequences and \<open>len\<close> counts bytes; \<^typ>\<open>string\<close> is a list of
  8-bit characters, so \<^const>\<open>length\<close> is Go's \<open>len\<close>.

  A value of Go's \<open>any\<close> is modelled by its dynamic type and payload.  \<open>NilValue\<close> is the nil
  interface, \<open>StringPtr\<close> a \<open>*string\<close> (\<open>None\<close> the typed nil pointer) and \<open>Other\<close> stands
  for every dynamic type that no type assertion of the package names.
\<close>

datatype float64 = NaN | NegInf | Finite real | PosInf

datatype any =
    NilValue
  | String string
  | Int64 int
  | Float64 float64
  | Bool bool
  | Time int
  | StringPtr "string option"
  | Other

text \<open>
  Errors built with \<open>fmt.Errorf\<close>: one constructor for each format string of the
  package, carrying the formatted arguments.
\<close>

datatype error =
    IdExpectedString          \<comment> \<open>invalid id, expected string value\<close>
  | IdExpectedLength nat      \<comment> \<open>invalid id, expected string of length N\<close>
  | IdExpectedHex             \<comment> \<open>invalid id, expcted hex string\<close>
  | ExpectedNonNull           \<comment> \<open>invalid value, expected non-null\<close>
  | ExpectedString            \<comment> \<open>invalid value, expected string\<close>
  | ExpectedInteger           \<comment> \<open>invalid value, expected integer\<close>
  | ExpectedFloat             \<comment> \<open>invalid value, expected float\<close>
  | ExpectedBool              \<comment> \<open>invalid value, expected bool\<close>
  | ExpectedDateTime          \<comment> \<open>invalid value, expected datetime or RFC-3339 datetime string\<close>
  | TooShort int              \<comment> \<open>value too short, min length is N\<close>
  | TooLong int               \<comment> \<open>value too long, max length is N\<close>
  | PatternMismatch string    \<comment> \<open>value does not match pattern, pattern is P\<close>
  | TooSmallInt int           \<comment> \<open>value too small, min value is N\<close>
  | TooBigInt int             \<comment> \<open>value too big, max value is N\<close>
  | TooSmallFloat float64
  | TooBigFloat float64
  | TooEarly int              \<comment> \<open>value too early, min value is D\<close>
  | TooLate int               \<comment> \<open>value too late, max value is D\<close>
  | InvalidDefault            \<comment> \<open>configuration error, invalid default value\<close>
  | ExpectedOneOf "string list" \<comment> \<open>invalid value, expected one of [...]\<close>

subsection \<open>Formatting with \<open>%x\<close>\<close>

definition hexdigit :: "nat \<Rightarrow> char" where
  "hexdigit d = ''0123456789abcdef'' ! (d mod 16)"

fun hex_nat :: "nat \<Rightarrow> string" where
  "hex_nat n = (if n < 16 then [hexdigit n] else hex_nat (n div 16) @ [hexdigit (n mod 16)])"

declare hex_nat.simps [simp del]

text \<open>\<open>%x\<close> of an \<open>int64\<close>: lower-case hexadecimal without leading zeros, a minus sign
  before the magnitude of a negative number.\<close>

definition fmt_x_int64 :: "64 word \<Rightarrow> string" where
  "fmt_x_int64 w = (if sint w < 0 then CHR ''-'' # hex_nat (nat (- sint w)) else hex_nat (nat (sint w)))"

text \<open>\<open>%x\<close> of a byte slice: two hexadecimal digits for each byte.\<close>

definition fmt_x_byte :: "8 word \<Rightarrow> string" where
  "fmt_x_byte b = [hexdigit (unat b div 16), hexdigit (unat b mod 16)]"

definition fmt_x_bytes :: "8 word list \<Rightarrow> string" where
  "fmt_x_bytes bs = concat (map fmt_x_byte bs)"

subsection \<open>\<open>GenerateId\<close>\<close>

text \<open>
  The two effects of \<open>GenerateId\<close> are its inputs here: \<open>now\<close> is what
  \<open>time.Now().UnixMilli()\<close> returns and \<open>rnd i\<close> is byte \<open>i\<close> of the buffer after
  \<open>rand.Read\<close> (whose error the source drops).  The product with 1000 is an \<open>int64\<close>
  product and wraps.
\<close>

definition GenerateId :: "64 word \<Rightarrow> (nat \<Rightarrow> 8 word) \<Rightarrow> string" where
  "GenerateId now rnd =
     (let timestamp = now * 1000;
          entropy = map rnd [0..<8]
      in fmt_x_int64 timestamp @ fmt_x_bytes entropy)"

subsection \<open>\<open>ValidateId\<close>\<close>

text \<open>
  \<open>strings.ToLower\<close> on bytes: the ASCII capitals are mapped to their lower-case
  letters.  Go maps a non-ASCII rune to its Unicode lower case and an invalid byte to
  U+FFFD, neither of which is one of \<open>0-9a-f\<close>, so the outcome of the hexadecimal test
  below is the same.
\<close>

definition toLowerByte :: "char \<Rightarrow> char" where
  "toLowerByte c =
     (let n = (of_char c :: nat) in if 65 \<le> n \<and> n \<le> 90 then char_of (n + 32) else c)"

definition ToLower :: "string \<Rightarrow> string" where
  "ToLower s = map toLowerByte s"

text \<open>\<open>strings.Trim(s, cutset)\<close>: drop the leading and the trailing characters that
  occur in \<open>cutset\<close>.\<close>

definition Trim :: "string \<Rightarrow> string \<Rightarrow> string" where
  "Trim s cutset =
     rev (dropWhile (\<lambda>c. c \<in> set cutset) (rev (dropWhile (\<lambda>c. c \<in> set cutset) s)))"

definition requiredLen :: nat where
  "requiredLen = 31"

text \<open>The result is Go's \<open>error\<close>: \<open>None\<close> is \<open>nil\<close>.\<close>

definition ValidateId :: "any \<Rightarrow> error option" where
  "ValidateId v =
     (case v of
        String str \<Rightarrow>
          if length str \<noteq> requiredLen then Some (IdExpectedLength requiredLen)
          else
            let str' = ToLower str in
            if length (Trim str' ''0123456789abcdef'') \<noteq> 0 then Some IdExpectedHex
            else None
      | _ \<Rightarrow> Some IdExpectedString)"

section \<open>The field type catalog\<close>

text \<open>
  The two library functions the validators call are parameters of the model:
  \<open>regexp.MatchString pattern s\<close> returns \<open>(matched, err)\<close>, here \<open>None\<close> when the pattern
  does not compile and \<open>Some matched\<close> otherwise; \<open>time.Parse(time.RFC3339, s)\<close> returns the
  instant or an error, here \<open>None\<close>.  A \<open>time.Time\<close> is the instant it denotes, so that
  \<open>Before\<close> and \<open>After\<close> are \<open><\<close> and \<open>>\<close>.
\<close>

record stdlib =
  regexp_MatchString :: "string \<Rightarrow> string \<Rightarrow> bool option"
  time_Parse :: "string \<Rightarrow> int option"

text \<open>Comparison of \<open>float64\<close> values: every comparison with \<open>NaN\<close> is false.\<close>

fun float64_less :: "float64 \<Rightarrow> float64 \<Rightarrow> bool" where
  "float64_less NaN _ = False"
| "float64_less _ NaN = False"
| "float64_less NegInf NegInf = False"
| "float64_less NegInf _ = True"
| "float64_less _ NegInf = False"
| "float64_less PosInf _ = False"
| "float64_less _ PosInf = True"
| "float64_less (Finite a) (Finite b) = (a < b)"

text \<open>
  The eight structs that implement \<open>FieldType\<close>, with their fields in the order of the
  source.  A field of function type (\<open>CreateDefaultValue func() string\<close> and the like) is
  \<open>None\<close> when it is nil and \<open>Some v\<close> when it is a function that returns \<open>v\<close> when
  \<open>ValidateValue\<close> calls it; no validator calls one of them twice.
\<close>

datatype FieldType =
    FieldTypeId
      (Id_Nullable: bool) (Id_PrimaryKey: bool) (Id_CreateDefaultValue: "string option")
  | FieldTypeText
      (Text_Nullable: bool) (Text_CreateDefaultValue: "string option")
      (Text_CreateMaxLength: "int option") (Text_CreateMinLength: "int option")
      (Text_CreatePattern: "string option")
  | FieldTypeInt
      (Int_Nullable: bool) (Int_CreateDefaultValue: "int option")
      (Int_CreateMinValue: "int option") (Int_CreateMaxValue: "int option")
  | FieldTypeFloat
      (Float_Nullable: bool) (Float_CreateDefaultValue: "float64 option")
      (Float_CreateMinValue: "float64 option") (Float_CreateMaxValue: "float64 option")
  | FieldTypeBool
      (Bool_Nullable: bool) (Bool_CreateDefaultValue: "bool option")
  | FieldTypeDateTime
      (DateTime_Nullable: bool) (DateTime_CreateDefaultValue: "int option")
      (DateTime_CreateMinValue: "int option") (DateTime_CreateMaxValue: "int option")
  | FieldTypeEnum
      (Enum_Nullable: bool) (Enum_EnumValues: "string list")
      (Enum_CreateDefaultValue: "string option")
  | FieldTypeSingleRelation
      (SingleRelation_Nullable: bool) (SingleRelation_Collection: string)
      (SingleRelation_CascadeDelete: bool)

definition validateNullable :: "bool \<Rightarrow> any \<Rightarrow> error option" where
  "validateNullable nullable v = (if v = NilValue \<and> \<not> nullable then Some ExpectedNonNull else None)"

text \<open>
  \<open>ValidateValue\<close> returns \<open>(any, error)\<close> with exactly one of the two set: \<open>Inl\<close> is the
  error, \<open>Inr\<close> the value (\<open>Inr NilValue\<close> is \<open>nil, nil\<close>).  The bound and pattern checks of
  the source are \<open>if\<close> statements that return early; each is a function to
  \<open>error option\<close> here, \<open>None\<close> when the check lets the value through.
\<close>

definition FieldTypeId_ValidateValue ::
  "bool \<Rightarrow> bool \<Rightarrow> string option \<Rightarrow> any \<Rightarrow> error + any" where
  "FieldTypeId_ValidateValue nullable primaryKey createDefaultValue v =
     (case validateNullable (nullable \<or> primaryKey) v of
        Some err \<Rightarrow> Inl err
      | None \<Rightarrow>
          if v = NilValue then Inr NilValue
          else (case ValidateId v of Some err \<Rightarrow> Inl err | None \<Rightarrow> Inr v))"

definition checkMinLength :: "int option \<Rightarrow> string \<Rightarrow> error option" where
  "checkMinLength createMinLength str =
     (case createMinLength of
        Some minLength \<Rightarrow> if int (length str) < minLength then Some (TooShort minLength) else None
      | None \<Rightarrow> None)"

definition checkMaxLength :: "int option \<Rightarrow> string \<Rightarrow> error option" where
  "checkMaxLength createMaxLength str =
     (case createMaxLength of
        Some maxLength \<Rightarrow> if int (length str) > maxLength then Some (TooLong maxLength) else None
      | None \<Rightarrow> None)"

definition checkPattern :: "stdlib \<Rightarrow> string option \<Rightarrow> string \<Rightarrow> error option" where
  "checkPattern std createPattern str =
     (case createPattern of
        Some pattern \<Rightarrow>
          (case regexp_MatchString std pattern str of
             None \<Rightarrow> Some (PatternMismatch pattern)
           | Some matched \<Rightarrow> None)
      | None \<Rightarrow> None)"

definition FieldTypeText_ValidateValue ::
  "stdlib \<Rightarrow> bool \<Rightarrow> string option \<Rightarrow> int option \<Rightarrow> int option \<Rightarrow> string option \<Rightarrow> any \<Rightarrow> error + any"
  where
  "FieldTypeText_ValidateValue std nullable createDefaultValue createMaxLength createMinLength createPattern v =
     (case validateNullable nullable v of
        Some err \<Rightarrow> Inl err
      | None \<Rightarrow>
          if v = NilValue then
            (case createDefaultValue of Some d \<Rightarrow> Inr (String d) | None \<Rightarrow> Inr NilValue)
          else
            (case v of
               String str \<Rightarrow>
                 (case checkMinLength createMinLength str of
                    Some err \<Rightarrow> Inl err
                  | None \<Rightarrow>
                      (case checkMaxLength createMaxLength str of
                         Some err \<Rightarrow> Inl err
                       | None \<Rightarrow>
                           (case checkPattern std createPattern str of
                              Some err \<Rightarrow> Inl err
                            | None \<Rightarrow> Inr (String str))))
             | _ \<Rightarrow> Inl ExpectedString))"

definition FieldTypeInt_ValidateValue ::
  "bool \<Rightarrow> int option \<Rightarrow> int option \<Rightarrow> int option \<Rightarrow> any \<Rightarrow> error + any" where
  "FieldTypeInt_ValidateValue nullable createDefaultValue createMinValue createMaxValue v =
     (case validateNullable nullable v of
        Some err \<Rightarrow> Inl err
      | None \<Rightarrow>
          if v = NilValue then
            (case createDefaultValue of Some d \<Rightarrow> Inr (Int64 d) | None \<Rightarrow> Inr NilValue)
          else
            (case v of
               Int64 i \<Rightarrow>
                 (case (case createMinValue of
                          Some minValue \<Rightarrow> if i < minValue then Some (TooSmallInt minValue) else None
                        | None \<Rightarrow> None) of
                    Some err \<Rightarrow> Inl err
                  | None \<Rightarrow>
                      (case (case createMaxValue of
                               Some maxValue \<Rightarrow> if i > maxValue then Some (TooBigInt maxValue) else None
                             | None \<Rightarrow> None) of
                         Some err \<Rightarrow> Inl err
                       | None \<Rightarrow> Inr (Int64 i)))
             | _ \<Rightarrow> Inl ExpectedInteger))"

definition FieldTypeFloat_ValidateValue ::
  "bool \<Rightarrow> float64 option \<Rightarrow> float64 option \<Rightarrow> float64 option \<Rightarrow> any \<Rightarrow> error + any" where
  "FieldTypeFloat_ValidateValue nullable createDefaultValue createMinValue createMaxValue v =
     (case validateNullable nullable v of
        Some err \<Rightarrow> Inl err
      | None \<Rightarrow>
          if v = NilValue then
            (case createDefaultValue of Some d \<Rightarrow> Inr (Float64 d) | None \<Rightarrow> Inr NilValue)
          else
            (case v of
               Float64 f \<Rightarrow>
                 (case (case createMinValue of
                          Some minValue \<Rightarrow>
                            if float64_less f minValue then Some (TooSmallFloat minValue) else None
                        | None \<Rightarrow> None) of
                    Some err \<Rightarrow> Inl err
                  | None \<Rightarrow>
                      (case (case createMaxValue of
                               Some maxValue \<Rightarrow>
                                 if float64_less maxValue f then Some (TooBigFloat maxValue) else None
                             | None \<Rightarrow> None) of
                         Some err \<Rightarrow> Inl err
                       | None \<Rightarrow> Inr (Float64 f)))
             | _ \<Rightarrow> Inl ExpectedFloat))"

definition FieldTypeBool_ValidateValue :: "bool \<Rightarrow> bool option \<Rightarrow> any \<Rightarrow> error + any" where
  "FieldTypeBool_ValidateValue nullable createDefaultValue v =
     (case validateNullable nullable v of
        Some err \<Rightarrow> Inl err
      | None \<Rightarrow>
          if v = NilValue then
            (case createDefaultValue of Some d \<Rightarrow> Inr (Bool d) | None \<Rightarrow> Inr NilValue)
          else
            (case v of
               Bool b \<Rightarrow> Inr (Bool b)
             | _ \<Rightarrow> Inl ExpectedBool))"

text \<open>A value that is neither a \<open>time.Time\<close> nor a string is parsed as the empty
  string, the zero value the failed assertion \<open>value.(string)\<close> leaves in \<open>str\<close>.\<close>

definition FieldTypeDateTime_ValidateValue ::
  "stdlib \<Rightarrow> bool \<Rightarrow> int option \<Rightarrow> int option \<Rightarrow> int option \<Rightarrow> any \<Rightarrow> error + any" where
  "FieldTypeDateTime_ValidateValue std nullable createDefaultValue createMinValue createMaxValue v =
     (case validateNullable nullable v of
        Some err \<Rightarrow> Inl err
      | None \<Rightarrow>
          if v = NilValue then
            (case createDefaultValue of Some d \<Rightarrow> Inr (Time d) | None \<Rightarrow> Inr NilValue)
          else
            (case (case v of
                     Time d \<Rightarrow> Some d
                   | String str \<Rightarrow> time_Parse std str
                   | _ \<Rightarrow> time_Parse std []) of
               None \<Rightarrow> Inl ExpectedDateTime
             | Some d \<Rightarrow>
                 (case (case createMinValue of
                          Some minValue \<Rightarrow> if d < minValue then Some (TooEarly d) else None
                        | None \<Rightarrow> None) of
                    Some err \<Rightarrow> Inl err
                  | None \<Rightarrow>
                      (case (case createMaxValue of
                               Some maxValue \<Rightarrow> if d > maxValue then Some (TooLate d) else None
                             | None \<Rightarrow> None) of
                         Some err \<Rightarrow> Inl err
                       | None \<Rightarrow> Inr (Time d)))))"

definition FieldTypeEnum_ValidateValue ::
  "bool \<Rightarrow> string list \<Rightarrow> string option \<Rightarrow> any \<Rightarrow> error + any" where
  "FieldTypeEnum_ValidateValue nullable enumValues createDefaultValue v =
     (let defaultValue = (case createDefaultValue of Some d \<Rightarrow> d | None \<Rightarrow> []) in
      if createDefaultValue \<noteq> None \<and> defaultValue \<notin> set enumValues then Inl InvalidDefault
      else
        (case validateNullable nullable v of
           Some err \<Rightarrow> Inl err
         | None \<Rightarrow>
             if v = NilValue then
               (if length defaultValue > 0 then Inr (String defaultValue) else Inr NilValue)
             else
               (case v of
                  String str \<Rightarrow>
                    if str \<in> set enumValues then Inr (String str)
                    else Inl (ExpectedOneOf enumValues)
                | _ \<Rightarrow> Inl (ExpectedOneOf enumValues))))"

text \<open>The method call on the interface: dispatch on the dynamic type.  The single
  relation validates as the Id type \<open>FieldTypeId{Nullable: fieldType.Nullable}\<close>.\<close>

fun ValidateValue :: "stdlib \<Rightarrow> FieldType \<Rightarrow> any \<Rightarrow> error + any" where
  "ValidateValue std (FieldTypeId nullable primaryKey createDefaultValue) v =
     FieldTypeId_ValidateValue nullable primaryKey createDefaultValue v"
| "ValidateValue std (FieldTypeText nullable createDefaultValue createMaxLength createMinLength createPattern) v =
     FieldTypeText_ValidateValue std nullable createDefaultValue createMaxLength createMinLength createPattern v"
| "ValidateValue std (FieldTypeInt nullable createDefaultValue createMinValue createMaxValue) v =
     FieldTypeInt_ValidateValue nullable createDefaultValue createMinValue createMaxValue v"
| "ValidateValue std (FieldTypeFloat nullable createDefaultValue createMinValue createMaxValue) v =
     FieldTypeFloat_ValidateValue nullable createDefaultValue createMinValue createMaxValue v"
| "ValidateValue std (FieldTypeBool nullable createDefaultValue) v =
     FieldTypeBool_ValidateValue nullable createDefaultValue v"
| "ValidateValue std (FieldTypeDateTime nullable createDefaultValue createMinValue createMaxValue) v =
     FieldTypeDateTime_ValidateValue std nullable createDefaultValue createMinValue createMaxValue v"
| "ValidateValue std (FieldTypeEnum nullable enumValues createDefaultValue) v =
     FieldTypeEnum_ValidateValue nullable enumValues createDefaultValue v"
| "ValidateValue std (FieldTypeSingleRelation nullable collection cascadeDelete) v =
     FieldTypeId_ValidateValue nullable False None v"

subsection \<open>The earlier \<open>TextFieldType\<close>\<close>

text \<open>
  The schema file of the package keeps an earlier text type whose default, bounds and
  pattern are pointers (\<open>None\<close> is the nil pointer).  Reading through a nil pointer
  panics, so this validator has three outcomes: a panic (the outer \<open>Inl\<close>), an error, or
  a value, which is a \<open>*string\<close>.  Its minimum-length check reads \<open>*fieldType.MaxLength\<close>.
\<close>

datatype panic =
    NilPointerDereference
  | UnexpectedFieldType      \<comment> \<open>SQLiteAdapter: unexpected fieldType\<close>

record TextFieldType =
  Nullable :: bool
  DefaultValue :: "string option"
  MaxLength :: "int option"
  MinLength :: "int option"
  Pattern :: "string option"

definition checkMinLength_TextFieldType :: "TextFieldType \<Rightarrow> string \<Rightarrow> panic + error option" where
  "checkMinLength_TextFieldType fieldType str =
     (case MinLength fieldType of
        None \<Rightarrow> Inr None
      | Some minLength \<Rightarrow>
          (case MaxLength fieldType of
             None \<Rightarrow> Inl NilPointerDereference
           | Some maxLength \<Rightarrow>
               if int (length str) < maxLength then Inr (Some (TooShort minLength)) else Inr None))"

definition TextFieldType_ValidateValue ::
  "stdlib \<Rightarrow> TextFieldType \<Rightarrow> any \<Rightarrow> panic + (error + any)" where
  "TextFieldType_ValidateValue std fieldType v =
     (case validateNullable (Nullable fieldType) v of
        Some err \<Rightarrow> Inr (Inl err)
      | None \<Rightarrow>
          if v = NilValue then Inr (Inr (StringPtr (DefaultValue fieldType)))
          else
            (case v of
               String str \<Rightarrow>
                 (case checkMaxLength (MaxLength fieldType) str of
                    Some err \<Rightarrow> Inr (Inl err)
                  | None \<Rightarrow>
                      (case checkMinLength_TextFieldType fieldType str of
                         Inl p \<Rightarrow> Inl p
                       | Inr (Some err) \<Rightarrow> Inr (Inl err)
                       | Inr None \<Rightarrow>
                           (case checkPattern std (Pattern fieldType) str of
                              Some err \<Rightarrow> Inr (Inl err)
                            | None \<Rightarrow> Inr (Inr (StringPtr (Some str))))))
             | _ \<Rightarrow> Inr (Inl ExpectedString)))"

section \<open>Schema entities on a heap\<close>

text \<open>
  \<open>Collection\<close>, \<open>CollectionSchema\<close>, \<open>Field\<close> and \<open>FieldSchema\<close> are reached through
  pointers, and \<open>Forward\<close> writes through them, so the model keeps the objects in a
  store: one list for each struct type, a pointer being \<open>None\<close> (nil) or \<open>Some a\<close>, the
  object at index \<open>a\<close> of its list.  Allocation appends, which makes the new address
  fresh.  Go has no dangling pointers; the model reads an address beyond the store
  as it reads nil.

  A \<open>[]*Field\<close> is the list of its element pointers.  Copying a slice value copies
  these pointers; the backing array the two slices then share is not modelled, since
  no function of the package assigns to an element of a shared slice.  The four access hooks
  of \<open>CollectionSchema\<close> are functions of no argument, \<open>None\<close> when nil.
\<close>

type_synonym ptr = "nat option"

record Field =
  Field_original :: ptr          \<comment> \<open>\<open>*Field\<close>\<close>
  Field_Name :: string
  Field_Schema :: ptr            \<comment> \<open>\<open>*FieldSchema\<close>\<close>

record FieldSchema =
  FieldSchema_Type :: "FieldType option"   \<comment> \<open>the interface value, \<open>None\<close> when nil\<close>

record CollectionSchema =
  Fields :: "ptr list"           \<comment> \<open>\<open>[]*Field\<close>\<close>
  ViewFilter :: "bool option"
  AllowCreate :: "bool option"
  AllowUpdate :: "bool option"
  AllowDelete :: "bool option"

record Collection =
  Collection_original :: ptr     \<comment> \<open>\<open>*Collection\<close>\<close>
  Collection_Name :: string
  Collection_Schema :: ptr       \<comment> \<open>\<open>*CollectionSchema\<close>\<close>

record heap =
  collectionStore :: "Collection list"
  collectionSchemaStore :: "CollectionSchema list"
  fieldStore :: "Field list"
  fieldSchemaStore :: "FieldSchema list"

definition deref :: "'a list \<Rightarrow> ptr \<Rightarrow> panic + 'a" where
  "deref store p =
     (case p of
        None \<Rightarrow> Inl NilPointerDereference
      | Some a \<Rightarrow> if a < length store then Inr (store ! a) else Inl NilPointerDereference)"

subsection \<open>\<open>Clone\<close>\<close>

text \<open>Every variant returns itself by value; the enum copies its slice of values into
  a new slice, which as a list is the same list.\<close>

fun FieldType_Clone :: "FieldType \<Rightarrow> FieldType" where
  "FieldType_Clone (FieldTypeEnum nullable enumValues createDefaultValue) =
     FieldTypeEnum nullable (take (length enumValues) enumValues) createDefaultValue"
| "FieldType_Clone ft = ft"

text \<open>The \<open>Clone\<close> methods have value receivers and return the address of a new
  struct: the model takes the struct and returns the new pointer with the new heap.\<close>

definition FieldSchema_Clone :: "heap \<Rightarrow> FieldSchema \<Rightarrow> panic + (ptr \<times> heap)" where
  "FieldSchema_Clone h s =
     (case FieldSchema_Type s of
        None \<Rightarrow> Inl NilPointerDereference
      | Some t \<Rightarrow>
          let cloned = \<lparr>FieldSchema_Type = Some (FieldType_Clone t)\<rparr>
          in Inr (Some (length (fieldSchemaStore h)), h\<lparr>fieldSchemaStore := fieldSchemaStore h @ [cloned]\<rparr>))"

definition Field_Clone :: "heap \<Rightarrow> Field \<Rightarrow> panic + (ptr \<times> heap)" where
  "Field_Clone h f =
     (case deref (fieldSchemaStore h) (Field_Schema f) of
        Inl p \<Rightarrow> Inl p
      | Inr s \<Rightarrow>
          (case FieldSchema_Clone h s of
             Inl p \<Rightarrow> Inl p
           | Inr (schema, h1) \<Rightarrow>
               let cloned = \<lparr>Field_original = None, Field_Name = Field_Name f, Field_Schema = schema\<rparr>
               in Inr (Some (length (fieldStore h1)), h1\<lparr>fieldStore := fieldStore h1 @ [cloned]\<rparr>)))"

text \<open>The loop of \<open>CollectionSchema.Clone\<close> that fills \<open>clonedFields\<close>.\<close>

fun cloneFields :: "heap \<Rightarrow> ptr list \<Rightarrow> panic + (ptr list \<times> heap)" where
  "cloneFields h [] = Inr ([], h)"
| "cloneFields h (field # rest) =
     (case deref (fieldStore h) field of
        Inl p \<Rightarrow> Inl p
      | Inr f \<Rightarrow>
          (case Field_Clone h f of
             Inl p \<Rightarrow> Inl p
           | Inr (c, h1) \<Rightarrow>
               (case cloneFields h1 rest of
                  Inl p \<Rightarrow> Inl p
                | Inr (cs, h2) \<Rightarrow> Inr (c # cs, h2))))"

text \<open>\<open>cloned := s\<close> copies the struct, its \<open>Fields\<close> slice included; the source returns
  \<open>&cloned\<close> and never stores \<open>clonedFields\<close> in it.\<close>

definition CollectionSchema_Clone :: "heap \<Rightarrow> CollectionSchema \<Rightarrow> panic + (ptr \<times> heap)" where
  "CollectionSchema_Clone h s =
     (let cloned = s in
      case cloneFields h (Fields s) of
        Inl p \<Rightarrow> Inl p
      | Inr (clonedFields, h1) \<Rightarrow>
          Inr (Some (length (collectionSchemaStore h1)),
               h1\<lparr>collectionSchemaStore := collectionSchemaStore h1 @ [cloned]\<rparr>))"

definition Collection_Clone :: "heap \<Rightarrow> Collection \<Rightarrow> panic + (ptr \<times> heap)" where
  "Collection_Clone h c =
     (case deref (collectionSchemaStore h) (Collection_Schema c) of
        Inl p \<Rightarrow> Inl p
      | Inr s \<Rightarrow>
          (case CollectionSchema_Clone h s of
             Inl p \<Rightarrow> Inl p
           | Inr (schema, h1) \<Rightarrow>
               let cloned = \<lparr>Collection_original = None, Collection_Name = Collection_Name c,
                             Collection_Schema = schema\<rparr>
               in Inr (Some (length (collectionStore h1)), h1\<lparr>collectionStore := collectionStore h1 @ [cloned]\<rparr>)))"

subsection \<open>\<open>Forward\<close>\<close>

text \<open>\<open>Forward\<close> has a pointer receiver: it reads the struct at the pointer, clones it
  and stores the clone's address in the \<open>original\<close> field of the struct.\<close>

definition Field_Forward :: "heap \<Rightarrow> ptr \<Rightarrow> panic + heap" where
  "Field_Forward h f =
     (case f of
        None \<Rightarrow> Inl NilPointerDereference
      | Some a \<Rightarrow>
          if a < length (fieldStore h) then
            (case Field_Clone h (fieldStore h ! a) of
               Inl p \<Rightarrow> Inl p
             | Inr (cloned, h1) \<Rightarrow>
                 Inr (h1\<lparr>fieldStore := (fieldStore h1)[a := (fieldStore h1 ! a)\<lparr>Field_original := cloned\<rparr>]\<rparr>))
          else Inl NilPointerDereference)"

fun forwardFields :: "heap \<Rightarrow> ptr list \<Rightarrow> panic + heap" where
  "forwardFields h [] = Inr h"
| "forwardFields h (field # rest) =
     (case Field_Forward h field of
        Inl p \<Rightarrow> Inl p
      | Inr h1 \<Rightarrow> forwardFields h1 rest)"

definition Collection_Forward :: "heap \<Rightarrow> ptr \<Rightarrow> panic + heap" where
  "Collection_Forward h c =
     (case c of
        None \<Rightarrow> Inl NilPointerDereference
      | Some a \<Rightarrow>
          if a < length (collectionStore h) then
            (case Collection_Clone h (collectionStore h ! a) of
               Inl p \<Rightarrow> Inl p
             | Inr (cloned, h1) \<Rightarrow>
                 let h2 = h1\<lparr>collectionStore :=
                               (collectionStore h1)[a := (collectionStore h1 ! a)\<lparr>Collection_original := cloned\<rparr>]\<rparr>
                 in (case deref (collectionSchemaStore h2) (Collection_Schema (collectionStore h2 ! a)) of
                       Inl p \<Rightarrow> Inl p
                     | Inr s \<Rightarrow> forwardFields h2 (Fields s)))
          else Inl NilPointerDereference)"

section \<open>The DuckDB transaction: \<open>SaveCollection\<close>\<close>

subsection \<open>Column definitions\<close>

definition withNullConstraint :: "string \<Rightarrow> bool \<Rightarrow> string" where
  "withNullConstraint sql nullable = (if nullable then sql @ '' NULL'' else sql @ '' NOT NULL'')"

text \<open>The type switch of \<open>columnSQL\<close>; its \<open>default\<close> branch panics, which the nil
  interface reaches.\<close>

fun columnSQL :: "string \<Rightarrow> FieldType option \<Rightarrow> panic + string" where
  "columnSQL column (Some (FieldTypeBool nullable d)) =
     Inr (withNullConstraint (column @ '' BOOL'') nullable)"
| "columnSQL column (Some (FieldTypeDateTime nullable d mn mx)) =
     Inr (withNullConstraint (column @ '' TIMESTAMP'') nullable)"
| "columnSQL column (Some (FieldTypeEnum nullable enumValues d)) =
     Inr (withNullConstraint (column @ '' TEXT'') nullable)"
| "columnSQL column (Some (FieldTypeFloat nullable d mn mx)) =
     Inr (withNullConstraint (column @ '' REAL'') nullable)"
| "columnSQL column (Some (FieldTypeId nullable primaryKey d)) =
     (let sql = withNullConstraint (column @ '' TEXT'') (nullable \<or> primaryKey)
      in Inr (if primaryKey then sql @ '' PRIMARY KEY'' else sql))"
| "columnSQL column (Some (FieldTypeInt nullable d mn mx)) =
     Inr (withNullConstraint (column @ '' BIGINT'') nullable)"
| "columnSQL column (Some (FieldTypeSingleRelation nullable collection cascadeDelete)) =
     (let sql = withNullConstraint (column @ '' TEXT'') nullable @ '' REFERENCES '' @ collection @ ''(id)''
      in Inr (if cascadeDelete then sql @ '' ON DELETE CASCADE'' else sql))"
| "columnSQL column (Some (FieldTypeText nullable d mx mn pat)) =
     Inr (withNullConstraint (column @ '' TEXT'') nullable)"
| "columnSQL column None = Inl UnexpectedFieldType"

text \<open>\<open>columnSQL(field.Name, field.Schema.Type)\<close> for a field pointer.\<close>

definition fieldColumnSQL :: "heap \<Rightarrow> ptr \<Rightarrow> panic + string" where
  "fieldColumnSQL h field =
     (case deref (fieldStore h) field of
        Inl p \<Rightarrow> Inl p
      | Inr f \<Rightarrow>
          (case deref (fieldSchemaStore h) (Field_Schema f) of
             Inl p \<Rightarrow> Inl p
           | Inr s \<Rightarrow> columnSQL (Field_Name f) (FieldSchema_Type s)))"

fun Join :: "string list \<Rightarrow> string \<Rightarrow> string" where
  "Join [] sep = []"
| "Join [x] sep = x"
| "Join (x # y # rest) sep = x @ sep @ Join (y # rest) sep"

subsection \<open>Loops whose body can panic\<close>

text \<open>The loop that appends one result for each element, \<open>lo.Filter\<close> and \<open>lo.Find\<close>
  (which stops at the first element its predicate accepts).\<close>

fun collect :: "('a \<Rightarrow> panic + 'b) \<Rightarrow> 'a list \<Rightarrow> panic + 'b list" where
  "collect f [] = Inr []"
| "collect f (x # xs) =
     (case f x of
        Inl p \<Rightarrow> Inl p
      | Inr y \<Rightarrow> (case collect f xs of Inl p \<Rightarrow> Inl p | Inr ys \<Rightarrow> Inr (y # ys)))"

fun Filter :: "'a list \<Rightarrow> ('a \<Rightarrow> panic + bool) \<Rightarrow> panic + 'a list" where
  "Filter [] predicate = Inr []"
| "Filter (x # xs) predicate =
     (case predicate x of
        Inl p \<Rightarrow> Inl p
      | Inr b \<Rightarrow>
          (case Filter xs predicate of
             Inl p \<Rightarrow> Inl p
           | Inr ys \<Rightarrow> Inr (if b then x # ys else ys)))"

fun Find :: "'a list \<Rightarrow> ('a \<Rightarrow> panic + bool) \<Rightarrow> panic + bool" where
  "Find [] predicate = Inr False"
| "Find (x # xs) predicate =
     (case predicate x of
        Inl p \<Rightarrow> Inl p
      | Inr b \<Rightarrow> if b then Inr True else Find xs predicate)"

subsection \<open>The transaction\<close>

text \<open>
  The state of the transaction is the list of the statements handed to \<open>tx.Exec\<close> so
  far.  The engine is a parameter: \<open>run tx sql\<close> is the error (\<open>None\<close> for nil) that
  executing \<open>sql\<close> after the statements \<open>tx\<close> returns.
\<close>

type_synonym 'e engine = "string list \<Rightarrow> string \<Rightarrow> 'e option"

definition Exec :: "'e engine \<Rightarrow> string list \<Rightarrow> string \<Rightarrow> string list \<times> 'e option" where
  "Exec run tx sql = (tx @ [sql], run tx sql)"

text \<open>A loop \<open>for _, field := range fs { sql := ...; if _, err := s.tx.Exec(sql); err != nil
  { return err } }\<close>, where building the statement can panic.  The second component
  of the result is \<open>Inl\<close> for a panic, \<open>Inr (Some err)\<close> for the early return and
  \<open>Inr None\<close> when the loop ran to its end.\<close>

fun execEach ::
  "'e engine \<Rightarrow> (ptr \<Rightarrow> panic + string) \<Rightarrow> string list \<Rightarrow> ptr list \<Rightarrow> string list \<times> (panic + 'e option)"
  where
  "execEach run statement tx [] = (tx, Inr None)"
| "execEach run statement tx (field # rest) =
     (case statement field of
        Inl p \<Rightarrow> (tx, Inl p)
      | Inr sql \<Rightarrow>
          (case Exec run tx sql of
             (tx1, Some err) \<Rightarrow> (tx1, Inr (Some err))
           | (tx1, None) \<Rightarrow> execEach run statement tx1 rest))"

text \<open>The predicates of the three filters.\<close>

definition isCreateField :: "heap \<Rightarrow> ptr \<Rightarrow> panic + bool" where
  "isCreateField h field =
     (case deref (fieldStore h) field of
        Inl p \<Rightarrow> Inl p
      | Inr f \<Rightarrow> Inr (Field_original f = None))"

text \<open>\<open>field.original.original.Name != field.Name\<close>\<close>

definition isRenameField :: "heap \<Rightarrow> ptr \<Rightarrow> panic + bool" where
  "isRenameField h field =
     (case deref (fieldStore h) field of
        Inl p \<Rightarrow> Inl p
      | Inr f \<Rightarrow>
          (case deref (fieldStore h) (Field_original f) of
             Inl p \<Rightarrow> Inl p
           | Inr original \<Rightarrow>
               (case deref (fieldStore h) (Field_original original) of
                  Inl p \<Rightarrow> Inl p
                | Inr original2 \<Rightarrow> Inr (Field_Name original2 \<noteq> Field_Name f))))"

text \<open>\<open>field.original != nil && field.original.Name == origField.Name\<close>\<close>

definition matchesOrigField :: "heap \<Rightarrow> ptr \<Rightarrow> ptr \<Rightarrow> panic + bool" where
  "matchesOrigField h origField field =
     (case deref (fieldStore h) field of
        Inl p \<Rightarrow> Inl p
      | Inr f \<Rightarrow>
          if Field_original f \<noteq> None then
            (case deref (fieldStore h) (Field_original f) of
               Inl p \<Rightarrow> Inl p
             | Inr original \<Rightarrow>
                 (case deref (fieldStore h) origField of
                    Inl p \<Rightarrow> Inl p
                  | Inr orig \<Rightarrow> Inr (Field_Name original = Field_Name orig)))
          else Inr False)"

definition isRemoveField :: "heap \<Rightarrow> ptr list \<Rightarrow> ptr \<Rightarrow> panic + bool" where
  "isRemoveField h currentFields origField =
     (case Find currentFields (matchesOrigField h origField) of
        Inl p \<Rightarrow> Inl p
      | Inr found \<Rightarrow> Inr (\<not> found))"

text \<open>The statements of the three loops.\<close>

definition dropColumnSQL :: "heap \<Rightarrow> string \<Rightarrow> ptr \<Rightarrow> panic + string" where
  "dropColumnSQL h table field =
     (case deref (fieldStore h) field of
        Inl p \<Rightarrow> Inl p
      | Inr f \<Rightarrow> Inr (''ALTER TABLE '' @ table @ '' DROP COLUMN '' @ Field_Name f))"

definition renameColumnSQL :: "heap \<Rightarrow> string \<Rightarrow> ptr \<Rightarrow> panic + string" where
  "renameColumnSQL h table field =
     (case deref (fieldStore h) field of
        Inl p \<Rightarrow> Inl p
      | Inr f \<Rightarrow>
          (case deref (fieldStore h) (Field_original f) of
             Inl p \<Rightarrow> Inl p
           | Inr original \<Rightarrow>
               Inr (''ALTER TABLE '' @ table @ '' RENAME COLUMN '' @ Field_Name original
                    @ '' TO '' @ Field_Name f)))"

definition addColumnSQL :: "heap \<Rightarrow> string \<Rightarrow> ptr \<Rightarrow> panic + string" where
  "addColumnSQL h table field =
     (case fieldColumnSQL h field of
        Inl p \<Rightarrow> Inl p
      | Inr column \<Rightarrow> Inr (''ALTER TABLE '' @ table @ '' ADD COLUMN '' @ column))"

text \<open>The branch of \<open>SaveCollection\<close> for a collection without \<open>original\<close>.\<close>

definition createTable :: "'e engine \<Rightarrow> heap \<Rightarrow> string list \<Rightarrow> Collection \<Rightarrow> string list \<times> (panic + 'e option)" where
  "createTable run h tx collection =
     (case deref (collectionSchemaStore h) (Collection_Schema collection) of
        Inl p \<Rightarrow> (tx, Inl p)
      | Inr schema \<Rightarrow>
          (case collect (fieldColumnSQL h) (Fields schema) of
             Inl p \<Rightarrow> (tx, Inl p)
           | Inr columns \<Rightarrow>
               let sql = ''CREATE TABLE '' @ Collection_Name collection @ '' ('' @ Join columns '', '' @ '')''
               in (case Exec run tx sql of (tx1, err) \<Rightarrow> (tx1, Inr err))))"

text \<open>The rest of \<open>SaveCollection\<close> after the table has its name: the three filters,
  then the three loops.\<close>

definition alterColumns ::
  "'e engine \<Rightarrow> heap \<Rightarrow> string list \<Rightarrow> Collection \<Rightarrow> Collection \<Rightarrow> string list \<times> (panic + 'e option)"
  where
  "alterColumns run h tx collection original =
     (case deref (collectionSchemaStore h) (Collection_Schema collection) of
        Inl p \<Rightarrow> (tx, Inl p)
      | Inr schema \<Rightarrow>
     (case Filter (Fields schema) (isCreateField h) of
        Inl p \<Rightarrow> (tx, Inl p)
      | Inr createFields \<Rightarrow>
     (case Filter (Fields schema) (isRenameField h) of
        Inl p \<Rightarrow> (tx, Inl p)
      | Inr renameFields \<Rightarrow>
     (case deref (collectionSchemaStore h) (Collection_Schema original) of
        Inl p \<Rightarrow> (tx, Inl p)
      | Inr originalSchema \<Rightarrow>
     (case Filter (Fields originalSchema) (isRemoveField h (Fields schema)) of
        Inl p \<Rightarrow> (tx, Inl p)
      | Inr removeFields \<Rightarrow>
     (case execEach run (dropColumnSQL h (Collection_Name collection)) tx removeFields of
        (tx1, Inl p) \<Rightarrow> (tx1, Inl p)
      | (tx1, Inr (Some err)) \<Rightarrow> (tx1, Inr (Some err))
      | (tx1, Inr None) \<Rightarrow>
     (case execEach run (renameColumnSQL h (Collection_Name collection)) tx1 renameFields of
        (tx2, Inl p) \<Rightarrow> (tx2, Inl p)
      | (tx2, Inr (Some err)) \<Rightarrow> (tx2, Inr (Some err))
      | (tx2, Inr None) \<Rightarrow>
          execEach run (addColumnSQL h (Collection_Name collection)) tx2 createFields)))))))"

text \<open>
  \<open>SaveCollection\<close> receives the collection by value.  It returns the state of the
  transaction and its outcome: \<open>Inl\<close> a panic, \<open>Inr (Some err)\<close> the error of the
  statement that failed, \<open>Inr None\<close> the nil error.
\<close>

definition SaveCollection ::
  "'e engine \<Rightarrow> heap \<Rightarrow> string list \<Rightarrow> Collection \<Rightarrow> string list \<times> (panic + 'e option)" where
  "SaveCollection run h tx collection =
     (if Collection_original collection = None then createTable run h tx collection
      else
        (case deref (collectionStore h) (Collection_original collection) of
           Inl p \<Rightarrow> (tx, Inl p)
         | Inr original \<Rightarrow>
             if Collection_Name original \<noteq> Collection_Name collection then
               (case Exec run tx (''ALTER TABLE '' @ Collection_Name original @ '' RENAME TO ''
                                  @ Collection_Name collection) of
                  (tx1, Some err) \<Rightarrow> (tx1, Inr (Some err))
                | (tx1, None) \<Rightarrow> alterColumns run h tx1 collection original)
             else alterColumns run h tx collection original))"

section \<open>Host programs and example data\<close>

text \<open>A field pointer that \<open>columnSQL(field.Name, field.Schema.Type)\<close> can follow to a
  type of the catalog: the field and its schema are there and the type is not nil.\<close>

definition wellFormedField :: "heap \<Rightarrow> ptr \<Rightarrow> bool" where
  "wellFormedField h field =
     (case deref (fieldStore h) field of
        Inl p \<Rightarrow> False
      | Inr f \<Rightarrow>
          (case deref (fieldSchemaStore h) (Field_Schema f) of
             Inl p \<Rightarrow> False
           | Inr s \<Rightarrow> FieldSchema_Type s \<noteq> None))"

text \<open>The assignment \<open>field.Name = name\<close> of a host program.\<close>

definition Field_setName :: "heap \<Rightarrow> ptr \<Rightarrow> string \<Rightarrow> panic + heap" where
  "Field_setName h field name =
     (case field of
        None \<Rightarrow> Inl NilPointerDereference
      | Some a \<Rightarrow>
          if a < length (fieldStore h)
          then Inr (h\<lparr>fieldStore := (fieldStore h)[a := (fieldStore h ! a)\<lparr>Field_Name := name\<rparr>]\<rparr>)
          else Inl NilPointerDereference)"

text \<open>The names \<open>c.original.Schema.Fields[i].Name\<close> that the baseline of the collection
  at \<open>c\<close> records, in order.\<close>

definition fieldName :: "heap \<Rightarrow> ptr \<Rightarrow> panic + string" where
  "fieldName h field =
     (case deref (fieldStore h) field of Inl p \<Rightarrow> Inl p | Inr f \<Rightarrow> Inr (Field_Name f))"

definition baselineFieldNames :: "heap \<Rightarrow> ptr \<Rightarrow> panic + string list" where
  "baselineFieldNames h c =
     (case deref (collectionStore h) c of
        Inl p \<Rightarrow> Inl p
      | Inr collection \<Rightarrow>
          (case deref (collectionStore h) (Collection_original collection) of
             Inl p \<Rightarrow> Inl p
           | Inr original \<Rightarrow>
               (case deref (collectionSchemaStore h) (Collection_Schema original) of
                  Inl p \<Rightarrow> Inl p
                | Inr schema \<Rightarrow> collect (fieldName h) (Fields schema))))"

text \<open>\<open>c.Forward(); field.Name = name\<close>, then the names the baseline records.\<close>

definition baselineAfterRename :: "heap \<Rightarrow> ptr \<Rightarrow> ptr \<Rightarrow> string \<Rightarrow> panic + string list" where
  "baselineAfterRename h c field name =
     (case Collection_Forward h c of
        Inl p \<Rightarrow> Inl p
      | Inr h1 \<Rightarrow>
          (case Field_setName h1 field name of
             Inl p \<Rightarrow> Inl p
           | Inr h2 \<Rightarrow> baselineFieldNames h2 c))"

text \<open>\<open>c.Forward(); tx.SaveCollection(*c)\<close>\<close>

definition saveAfterForward ::
  "'e engine \<Rightarrow> heap \<Rightarrow> string list \<Rightarrow> ptr \<Rightarrow> string list \<times> (panic + 'e option)" where
  "saveAfterForward run h tx c =
     (case Collection_Forward h c of
        Inl p \<Rightarrow> (tx, Inl p)
      | Inr h1 \<Rightarrow>
          (case deref (collectionStore h1) c of
             Inl p \<Rightarrow> (tx, Inl p)
           | Inr collection \<Rightarrow> SaveCollection run h1 tx collection))"

text \<open>\<open>c.Forward(); field.Name = name; tx.SaveCollection(*c)\<close>\<close>

definition saveAfterRename ::
  "'e engine \<Rightarrow> heap \<Rightarrow> string list \<Rightarrow> ptr \<Rightarrow> ptr \<Rightarrow> string \<Rightarrow> string list \<times> (panic + 'e option)"
  where
  "saveAfterRename run h tx c field name =
     (case Collection_Forward h c of
        Inl p \<Rightarrow> (tx, Inl p)
      | Inr h1 \<Rightarrow>
          (case Field_setName h1 field name of
             Inl p \<Rightarrow> (tx, Inl p)
           | Inr h2 \<Rightarrow>
               (case deref (collectionStore h2) c of
                  Inl p \<Rightarrow> (tx, Inl p)
                | Inr collection \<Rightarrow> SaveCollection run h2 tx collection)))"

text \<open>An engine that executes every statement without error.\<close>

definition accepting :: "unit engine" where
  "accepting tx sql = None"

text \<open>
  A heap with one collection \<open>t\<close> that has no baseline and one text field \<open>a\<close>:
  \<open>&Collection{Name: "t", Schema: &CollectionSchema{Fields: []*Field{{Name: "a",
  Schema: &FieldSchema{Type: FieldTypeText{}}}}}}\<close>.
\<close>

definition exampleHeap :: heap where
  "exampleHeap =
     \<lparr>collectionStore =
        [\<lparr>Collection_original = None, Collection_Name = ''t'', Collection_Schema = Some 0\<rparr>],
      collectionSchemaStore =
        [\<lparr>Fields = [Some 0], ViewFilter = None, AllowCreate = None, AllowUpdate = None,
          AllowDelete = None\<rparr>],
      fieldStore =
        [\<lparr>Field_original = None, Field_Name = ''a'', Field_Schema = Some 0\<rparr>],
      fieldSchemaStore =
        [\<lparr>FieldSchema_Type = Some (FieldTypeText False None None None None)\<rparr>]\<rparr>"

text \<open>
  A heap with the collection \<open>users\<close>, no baseline, and three fields in the order \<open>id\<close>
  (an Id primary key), \<open>email\<close> (a text of at most 100 characters) and \<open>active\<close> (a
  nullable bool).  The fields and their schemas lie in the stores in another order
  than the schema lists them.
\<close>

definition usersHeap :: heap where
  "usersHeap =
     \<lparr>collectionStore =
        [\<lparr>Collection_original = None, Collection_Name = ''users'', Collection_Schema = Some 0\<rparr>],
      collectionSchemaStore =
        [\<lparr>Fields = [Some 2, Some 0, Some 1], ViewFilter = None, AllowCreate = None,
          AllowUpdate = None, AllowDelete = None\<rparr>],
      fieldStore =
        [\<lparr>Field_original = None, Field_Name = ''email'', Field_Schema = Some 1\<rparr>,
         \<lparr>Field_original = None, Field_Name = ''active'', Field_Schema = Some 2\<rparr>,
         \<lparr>Field_original = None, Field_Name = ''id'', Field_Schema = Some 0\<rparr>],
      fieldSchemaStore =
        [\<lparr>FieldSchema_Type = Some (FieldTypeId False True None)\<rparr>,
         \<lparr>FieldSchema_Type = Some (FieldTypeText False None (Some 100) None None)\<rparr>,
         \<lparr>FieldSchema_Type = Some (FieldTypeBool True None)\<rparr>]\<rparr>"

definition usersCollection :: Collection where
  "usersCollection =
     \<lparr>Collection_original = None, Collection_Name = ''users'', Collection_Schema = Some 0\<rparr>"

text \<open>
  A library for the examples.  Its regular expressions agree with Go's on the two
  patterns the examples use: \<open>^a+$\<close> compiles and matches the non-empty strings of
  \<open>a\<close>, and \<open>(\<close> does not compile.  Its parser knows no date.
\<close>

definition exampleMatchString :: "string \<Rightarrow> string \<Rightarrow> bool option" where
  "exampleMatchString pattern s =
     (if pattern = ''^a+$'' then Some (s \<noteq> [] \<and> set s \<subseteq> {CHR ''a''}) else None)"

definition exampleParse :: "string \<Rightarrow> int option" where
  "exampleParse s = None"

definition exampleStdlib :: stdlib where
  "exampleStdlib = \<lparr>regexp_MatchString = exampleMatchString, time_Parse = exampleParse\<rparr>"


section \<open>Properties of the identifier format\<close>

text \<open>\<open>strings.Trim\<close> leaves nothing exactly when every character is in the cutset.\<close>

lemma Trim_Nil_iff: "Trim s cs = [] \<longleftrightarrow> set s \<subseteq> set cs"
proof
  assume "set s \<subseteq> set cs"
  then have d: "dropWhile (\<lambda>c. c \<in> set cs) s = []"
    by (simp only: dropWhile_eq_Nil_conv) blast
  show "Trim s cs = []"
    by (simp only: Trim_def d dropWhile.simps rev.simps)
next
  assume t: "Trim s cs = []"
  let ?d = "dropWhile (\<lambda>c. c \<in> set cs) s"
  from t have all: "\<forall>x \<in> set ?d. x \<in> set cs"
    by (simp only: Trim_def rev_is_Nil_conv dropWhile_eq_Nil_conv set_rev)
  have "?d = []"
  proof (rule ccontr)
    assume ne: "?d \<noteq> []"
    then have "hd ?d \<notin> set cs" by (rule hd_dropWhile)
    moreover have "hd ?d \<in> set ?d" using ne by (rule hd_in_set)
    ultimately show False using all by blast
  qed
  then show "set s \<subseteq> set cs"
    by (simp only: dropWhile_eq_Nil_conv) blast
qed

text \<open>What \<open>ValidateId\<close> accepts: the strings of 31 bytes whose lower-cased form has
  hexadecimal digits only.\<close>

lemma ValidateId_String:
  "ValidateId (String s) = None \<longleftrightarrow> length s = 31 \<and> set (ToLower s) \<subseteq> set ''0123456789abcdef''"
  unfolding ValidateId_def any.case Let_def length_0_conv Trim_Nil_iff requiredLen_def
  by (simp only: if_splits option.distinct simp_thms split: if_splits) blast

lemma ValidateId_None_iff:
  "ValidateId v = None \<longleftrightarrow>
     (\<exists>s. v = String s \<and> length s = 31 \<and> set (ToLower s) \<subseteq> set ''0123456789abcdef'')"
  by (cases v) (simp_all add: ValidateId_String, simp_all add: ValidateId_def)

text \<open>The number of digits \<open>%x\<close> prints.\<close>

lemma hex_nat_length_le: "n < 16 ^ Suc k \<Longrightarrow> length (hex_nat n) \<le> Suc k"
proof (induction k arbitrary: n)
  case 0
  then show ?case by (simp add: hex_nat.simps)
next
  case (Suc k)
  show ?case
  proof (cases "n < 16")
    case True
    then show ?thesis by (simp add: hex_nat.simps)
  next
    case False
    from Suc.prems have "n div 16 < 16 ^ Suc k"
      by (simp add: less_mult_imp_div_less mult.commute)
    from Suc.IH [OF this] False show ?thesis
      by (subst hex_nat.simps) simp
  qed
qed

lemma length_fmt_x_bytes: "length (fmt_x_bytes bs) = 2 * length bs"
  by (induction bs) (simp_all add: fmt_x_bytes_def fmt_x_byte_def)

lemma sint_small: "uint (w :: 64 word) < 2 ^ 63 \<Longrightarrow> sint w = uint w"
proof -
  assume b: "uint w < 2 ^ 63"
  have "- (2 ^ 63) \<le> (0 :: int)" by simp
  also have "0 \<le> uint w" by (rule uint_ge_0)
  finally have c: "- (2 ^ 63) \<le> uint w" .
  have "signed_take_bit 63 (uint w) = uint w"
    using c b by (rule signed_take_bit_int_eq_self)
  then show ?thesis
    unfolding sint_uint by simp
qed

text \<open>
  Before \<open>UnixMilli\<close> reaches 72057594037927 (the year 4253) the timestamp has at most
  14 hexadecimal digits, so the identifier has at most 30 characters.
\<close>

lemma GenerateId_short:
  assumes "uint now < 72057594037927"
  shows "length (GenerateId now rnd) \<le> 30"
proof -
  have "uint now * 1000 < 2 ^ 64" "0 \<le> uint now * 1000"
    using assms by simp_all
  then have u: "uint (now * 1000) = uint now * 1000"
    by (simp add: uint_word_ariths)
  have lt: "uint (now * 1000) < 16 ^ Suc 13"
    using assms unfolding u by simp
  then have "uint (now * 1000) < 2 ^ 63" by simp
  then have s: "sint (now * 1000) = uint (now * 1000)"
    by (rule sint_small)
  have "nat (uint (now * 1000)) < nat (16 ^ Suc 13)"
    using lt by (simp only: nat_less_iff nat_0_le uint_ge_0)
  then have "nat (uint (now * 1000)) < 16 ^ Suc 13"
    by (simp only: nat_power_eq nat_numeral zero_le_numeral)
  then have "length (hex_nat (nat (uint (now * 1000)))) \<le> Suc 13"
    by (rule hex_nat_length_le)
  then have "length (fmt_x_int64 (now * 1000)) \<le> Suc 13"
    unfolding fmt_x_int64_def s by simp
  then show ?thesis
    by (simp add: GenerateId_def Let_def length_fmt_x_bytes)
qed

lemma GenerateId_rejected:
  assumes "uint now < 72057594037927"
  shows "ValidateId (String (GenerateId now rnd)) = Some (IdExpectedLength 31)"
proof -
  have "length (GenerateId now rnd) \<noteq> 31"
    using GenerateId_short [OF assms, of rnd] by simp
  then show ?thesis
    by (simp add: ValidateId_def requiredLen_def)
qed

text \<open>
  The second half of the identifier property holds of \<open>ValidateId\<close> alone: an accepted
  string is rejected after one of its characters is replaced by a character that is not
  a hexadecimal digit in either case, and after its last character is removed.
\<close>

lemma ValidateId_mutated:
  assumes a: "ValidateId (String s) = None" and i: "i < length s"
    and c: "toLowerByte c \<notin> set ''0123456789abcdef''"
  shows "ValidateId (String (s[i := c])) = Some IdExpectedHex"
proof -
  from a have len: "length s = 31" by (simp only: ValidateId_String)
  have "c \<in> set (s[i := c])" using i by (rule set_update_memI)
  then have "toLowerByte c \<in> set (ToLower (s[i := c]))"
    unfolding ToLower_def by simp
  with c have "\<not> set (ToLower (s[i := c])) \<subseteq> set ''0123456789abcdef''"
    by blast
  then have "Trim (ToLower (s[i := c])) ''0123456789abcdef'' \<noteq> []"
    unfolding Trim_Nil_iff .
  then show ?thesis using len
    unfolding ValidateId_def by (simp add: requiredLen_def Let_def)
qed

lemma ValidateId_truncated:
  assumes "ValidateId (String s) = None"
  shows "ValidateId (String (butlast s)) = Some (IdExpectedLength 31)"
proof -
  from assms have "length s = 31" by (simp only: ValidateId_String)
  then show ?thesis by (simp add: ValidateId_def requiredLen_def)
qed

text \<open>
  C2.  Every string returned by \<open>GenerateId\<close> passes \<open>ValidateId\<close>.  The code does not
  do this: with the clock at 1700000000000 ms (November 2023) and every entropy byte
  \<open>0xab\<close>, \<open>GenerateId\<close> returns the 29 characters \<open>60a24181e4000abab...ab\<close> (13 digits
  of timestamp, 16 of entropy), and \<open>ValidateId\<close> rejects them for their length.
\<close>

theorem GenerateId_output_fails_ValidateId:
  "GenerateId 1700000000000 (\<lambda>i. 171) = ''60a24181e4000abababababababab'' \<and>
   length (GenerateId 1700000000000 (\<lambda>i. 171)) = 29 \<and>
   ValidateId (String (GenerateId 1700000000000 (\<lambda>i. 171))) = Some (IdExpectedLength 31)"
proof -
  have ts: "fmt_x_int64 (1700000000000 * 1000) = ''60a24181e4000''"
    by (simp add: fmt_x_int64_def hex_nat.simps hexdigit_def)
  have en: "fmt_x_bytes (map (\<lambda>i. 171) [0..<8]) = ''abababababababab''"
    by (simp add: fmt_x_bytes_def fmt_x_byte_def hexdigit_def upt_rec)
  have g: "GenerateId 1700000000000 (\<lambda>i. 171) = ''60a24181e4000abababababababab''"
    unfolding GenerateId_def Let_def ts en by simp
  show ?thesis
    unfolding g by (simp add: ValidateId_def requiredLen_def)
qed

text \<open>
  C10.  \<open>ValidateId\<close> returns a non-nil error, the one of the failed type assertion, for
  every value whose dynamic type is not \<open>string\<close>; it has no panic to raise.
\<close>

theorem ValidateId_rejects_non_string:
  "(\<forall>s. v \<noteq> String s) \<Longrightarrow> ValidateId v = Some IdExpectedString"
  by (cases v) (simp_all add: ValidateId_def)

theorem ValidateId_rejects_non_string_witness:
  "(\<forall>s. Int64 5 \<noteq> String s) \<and> ValidateId (Int64 5) = Some IdExpectedString"
  using ValidateId_rejects_non_string [of "Int64 5"] by simp

section \<open>Properties of the validators\<close>

text \<open>
  What the validators return for the nil value when the field is nullable.  Text, Int,
  Float, Bool and DateTime call their default provider when there is one and return
  nil when there is none.  Enum returns the value of its provider when it is a
  non-empty member of \<open>EnumValues\<close> and nil without provider; a value outside \<open>EnumValues\<close>
  is the configuration error, whatever the input.  The single relation has no
  provider and returns nil, and so does an Id field without provider.
\<close>

lemma ValidateValue_absent_default:
  "ValidateValue std (FieldTypeText True dText maxLength minLength pat) NilValue =
     Inr (case dText of Some s \<Rightarrow> String s | None \<Rightarrow> NilValue) \<and>
   ValidateValue std (FieldTypeInt True dInt minInt maxInt) NilValue =
     Inr (case dInt of Some i \<Rightarrow> Int64 i | None \<Rightarrow> NilValue) \<and>
   ValidateValue std (FieldTypeFloat True dFloat minFloat maxFloat) NilValue =
     Inr (case dFloat of Some x \<Rightarrow> Float64 x | None \<Rightarrow> NilValue) \<and>
   ValidateValue std (FieldTypeBool True dBool) NilValue =
     Inr (case dBool of Some b \<Rightarrow> Bool b | None \<Rightarrow> NilValue) \<and>
   ValidateValue std (FieldTypeDateTime True dTime minTime maxTime) NilValue =
     Inr (case dTime of Some t \<Rightarrow> Time t | None \<Rightarrow> NilValue) \<and>
   ValidateValue std (FieldTypeEnum True enumValues None) NilValue = Inr NilValue \<and>
   (dEnum \<in> set enumValues \<and> dEnum \<noteq> [] \<longrightarrow>
      ValidateValue std (FieldTypeEnum True enumValues (Some dEnum)) NilValue = Inr (String dEnum)) \<and>
   (dEnum \<notin> set enumValues \<longrightarrow>
      ValidateValue std (FieldTypeEnum nullable enumValues (Some dEnum)) NilValue = Inl InvalidDefault) \<and>
   ValidateValue std (FieldTypeSingleRelation True collection cascadeDelete) NilValue = Inr NilValue \<and>
   (nullable \<or> primaryKey \<longrightarrow>
      ValidateValue std (FieldTypeId nullable primaryKey None) NilValue = Inr NilValue)"
proof -
  have hText: "ValidateValue std (FieldTypeText True dText maxLength minLength pat) NilValue =
     Inr (case dText of Some s \<Rightarrow> String s | None \<Rightarrow> NilValue)"
    by (simp add: FieldTypeText_ValidateValue_def validateNullable_def split: option.splits)
  have hInt: "ValidateValue std (FieldTypeInt True dInt minInt maxInt) NilValue =
     Inr (case dInt of Some i \<Rightarrow> Int64 i | None \<Rightarrow> NilValue)"
    by (simp add: FieldTypeInt_ValidateValue_def validateNullable_def split: option.splits)
  have hFloat: "ValidateValue std (FieldTypeFloat True dFloat minFloat maxFloat) NilValue =
     Inr (case dFloat of Some x \<Rightarrow> Float64 x | None \<Rightarrow> NilValue)"
    by (simp add: FieldTypeFloat_ValidateValue_def validateNullable_def split: option.splits)
  have hBool: "ValidateValue std (FieldTypeBool True dBool) NilValue =
     Inr (case dBool of Some b \<Rightarrow> Bool b | None \<Rightarrow> NilValue)"
    by (simp add: FieldTypeBool_ValidateValue_def validateNullable_def split: option.splits)
  have hTime: "ValidateValue std (FieldTypeDateTime True dTime minTime maxTime) NilValue =
     Inr (case dTime of Some t \<Rightarrow> Time t | None \<Rightarrow> NilValue)"
    by (simp add: FieldTypeDateTime_ValidateValue_def validateNullable_def split: option.splits)
  have hEnum: "ValidateValue std (FieldTypeEnum True enumValues None) NilValue = Inr NilValue"
    "dEnum \<in> set enumValues \<and> dEnum \<noteq> [] \<longrightarrow>
      ValidateValue std (FieldTypeEnum True enumValues (Some dEnum)) NilValue = Inr (String dEnum)"
    "dEnum \<notin> set enumValues \<longrightarrow>
      ValidateValue std (FieldTypeEnum nullable enumValues (Some dEnum)) NilValue = Inl InvalidDefault"
    by (simp_all add: FieldTypeEnum_ValidateValue_def validateNullable_def)
  have hRel: "ValidateValue std (FieldTypeSingleRelation True collection cascadeDelete) NilValue = Inr NilValue"
    by (simp add: FieldTypeId_ValidateValue_def validateNullable_def)
  have hId: "nullable \<or> primaryKey \<longrightarrow>
      ValidateValue std (FieldTypeId nullable primaryKey None) NilValue = Inr NilValue"
    by (simp add: FieldTypeId_ValidateValue_def validateNullable_def)
  from hText hInt hFloat hBool hTime hEnum hRel hId show ?thesis
    by (intro conjI)
qed

text \<open>\<open>FieldTypeId.ValidateValue\<close> never reads \<open>CreateDefaultValue\<close>: a nullable Id field
  with a provider returns nil for the nil value.\<close>

lemma FieldTypeId_ignores_default:
  "ValidateValue std (FieldTypeId True primaryKey (Some d)) NilValue = Inr NilValue"
  by (simp add: FieldTypeId_ValidateValue_def validateNullable_def)

text \<open>\<open>FieldTypeEnum.ValidateValue\<close> tells a default from none by its length: a provider
  that returns the empty string, one of the values, gives nil.\<close>

lemma FieldTypeEnum_empty_default:
  "[] \<in> set enumValues \<Longrightarrow>
     ValidateValue std (FieldTypeEnum True enumValues (Some [])) NilValue = Inr NilValue"
  by (simp add: FieldTypeEnum_ValidateValue_def validateNullable_def)

text \<open>
  C7.  For every nullable variant, \<open>ValidateValue\<close> of the nil value returns the value of
  the default provider when one is configured, and nil only when none is.  The Id
  variant does not do this: \<open>FieldTypeId\<close> declares \<open>CreateDefaultValue\<close> and its
  \<open>ValidateValue\<close> never calls it, so a nullable Id field whose provider returns an
  identifier gives nil, where the text field with the same provider gives the
  identifier.
\<close>

theorem FieldTypeId_default_not_returned:
  "ValidateValue exampleStdlib
     (FieldTypeId True False (Some ''0123456789abcdef0123456789abcde'')) NilValue = Inr NilValue \<and>
   ValidateValue exampleStdlib
     (FieldTypeText True (Some ''0123456789abcdef0123456789abcde'') None None None) NilValue =
     Inr (String ''0123456789abcdef0123456789abcde'')"
  by (simp add: FieldTypeId_ValidateValue_def FieldTypeText_ValidateValue_def validateNullable_def)

text \<open>The result of \<open>FieldTypeText.ValidateValue\<close> on a string, for a type with a pattern
  and no bounds, depends on whether the pattern compiles and not on the match.\<close>

lemma FieldTypeText_pattern_result:
  "ValidateValue std (FieldTypeText nullable d None None (Some pattern)) (String s) =
     (case regexp_MatchString std pattern s of
        None \<Rightarrow> Inl (PatternMismatch pattern)
      | Some matched \<Rightarrow> Inr (String s))"
  by (simp add: FieldTypeText_ValidateValue_def validateNullable_def checkMinLength_def
      checkMaxLength_def checkPattern_def split: option.splits)

lemma TextFieldType_pattern_result:
  "TextFieldType_ValidateValue std
     \<lparr>Nullable = nullable, DefaultValue = d, MaxLength = None, MinLength = None, Pattern = Some pattern\<rparr>
     (String s) =
     (case regexp_MatchString std pattern s of
        None \<Rightarrow> Inr (Inl (PatternMismatch pattern))
      | Some matched \<Rightarrow> Inr (Inr (StringPtr (Some s))))"
  by (simp add: TextFieldType_ValidateValue_def validateNullable_def checkMinLength_TextFieldType_def
      checkMaxLength_def checkPattern_def split: option.splits)

text \<open>
  C8.  A text field with a pattern rejects a string with the pattern-mismatch error
  exactly when the string does not match.  The code does not do this: both validators
  drop the first result of \<open>regexp.MatchString\<close> and test its error only.  The pattern
  \<open>^a+$\<close> compiles and does not match \<open>b\<close>, and both accept \<open>b\<close>; the pattern \<open>(\<close> does not
  compile, and both return the error (no panic).
\<close>

theorem pattern_mismatch_accepted:
  "regexp_MatchString exampleStdlib ''^a+$'' ''b'' = Some False \<and>
   ValidateValue exampleStdlib (FieldTypeText False None None None (Some ''^a+$'')) (String ''b'') =
     Inr (String ''b'') \<and>
   TextFieldType_ValidateValue exampleStdlib
     \<lparr>Nullable = False, DefaultValue = None, MaxLength = None, MinLength = None,
      Pattern = Some ''^a+$''\<rparr> (String ''b'') = Inr (Inr (StringPtr (Some ''b''))) \<and>
   ValidateValue exampleStdlib (FieldTypeText False None None None (Some ''('')) (String ''b'') =
     Inl (PatternMismatch ''('')"
  by (simp add: FieldTypeText_ValidateValue_def TextFieldType_ValidateValue_def validateNullable_def
      checkMinLength_def checkMinLength_TextFieldType_def checkMaxLength_def checkPattern_def
      exampleStdlib_def exampleMatchString_def)

text \<open>The minimum length in the two validators: \<open>FieldTypeText\<close> compares the length with
  the minimum; \<open>TextFieldType\<close> compares it with the maximum.\<close>

lemma FieldTypeText_too_short_iff:
  "ValidateValue std (FieldTypeText nullable d maxLength (Some m) pat) (String s) = Inl (TooShort m)
     \<longleftrightarrow> int (length s) < m"
  by (auto simp: FieldTypeText_ValidateValue_def validateNullable_def checkMinLength_def
      checkMaxLength_def checkPattern_def split: option.splits)

lemma TextFieldType_too_short_iff:
  "TextFieldType_ValidateValue std
     \<lparr>Nullable = nullable, DefaultValue = d, MaxLength = Some mx, MinLength = Some m, Pattern = pat\<rparr>
     (String s) = Inr (Inl (TooShort m)) \<longleftrightarrow> int (length s) < mx"
  by (auto simp: TextFieldType_ValidateValue_def validateNullable_def checkMinLength_TextFieldType_def
      checkMaxLength_def checkPattern_def split: option.splits)

text \<open>
  C9.  A text field with minimum length \<open>m\<close> rejects a string as too short exactly when
  its length is below \<open>m\<close>, with or without a maximum length.  \<open>TextFieldType\<close> does not do
  this: with minimum 2 and maximum 10 it rejects \<open>abc\<close>, of length 3, as too short,
  and with minimum 2 and no maximum it panics on the nil \<open>MaxLength\<close>.
\<close>

theorem TextFieldType_min_length_reads_max:
  "TextFieldType_ValidateValue exampleStdlib
     \<lparr>Nullable = False, DefaultValue = None, MaxLength = Some 10, MinLength = Some 2, Pattern = None\<rparr>
     (String ''abc'') = Inr (Inl (TooShort 2)) \<and>
   TextFieldType_ValidateValue exampleStdlib
     \<lparr>Nullable = False, DefaultValue = None, MaxLength = None, MinLength = Some 2, Pattern = None\<rparr>
     (String ''abc'') = Inl NilPointerDereference"
  by (simp add: TextFieldType_ValidateValue_def validateNullable_def checkMinLength_TextFieldType_def
      checkMaxLength_def checkPattern_def)

section \<open>Properties of the column definitions and of \<open>SaveCollection\<close>\<close>

text \<open>
  C6.  The column definition of an Id field with \<open>PrimaryKey\<close> set.  The code passes
  \<open>ft.Nullable || ft.PrimaryKey\<close> to \<open>withNullConstraint\<close>, so the definition is the column
  name followed by \<open>TEXT NULL PRIMARY KEY\<close>.
\<close>

theorem columnSQL_primary_key:
  "columnSQL column (Some (FieldTypeId nullable True d)) = Inr (column @ '' TEXT NULL PRIMARY KEY'')"
  by (simp add: withNullConstraint_def)

theorem columnSQL_primary_key_counterexample:
  "columnSQL ''id'' (Some (FieldTypeId False True None)) \<noteq> Inr ''id TEXT NOT NULL PRIMARY KEY''"
  by (simp add: withNullConstraint_def)

text \<open>Every type of the catalog has a column definition.\<close>

lemma columnSQL_Some: "\<exists>column'. columnSQL column (Some t) = Inr column'"
  by (cases t) (simp_all add: Let_def)

lemma wellFormedField_column:
  assumes "wellFormedField h field"
  shows "\<exists>column. fieldColumnSQL h field = Inr column"
proof -
  from assms obtain f where f: "deref (fieldStore h) field = Inr f"
    by (auto simp: wellFormedField_def split: sum.splits)
  from assms f obtain s where s: "deref (fieldSchemaStore h) (Field_Schema f) = Inr s"
    by (auto simp: wellFormedField_def split: sum.splits)
  from assms f s obtain t where t: "FieldSchema_Type s = Some t"
    by (auto simp: wellFormedField_def)
  from columnSQL_Some [of "Field_Name f" t] show ?thesis
    by (simp add: fieldColumnSQL_def f s t)
qed

text \<open>A loop whose body never panics returns one result for each element, in order.\<close>

lemma collect_total:
  assumes "\<forall>x \<in> set xs. \<exists>y. f x = Inr y"
  shows "\<exists>ys. collect f xs = Inr ys \<and> length ys = length xs \<and>
              (\<forall>i < length xs. f (xs ! i) = Inr (ys ! i))"
  using assms
proof (induction xs)
  case Nil
  then show ?case by simp
next
  case (Cons x xs)
  from Cons.prems obtain y where y: "f x = Inr y" by auto
  from Cons obtain ys where ys: "collect f xs = Inr ys" "length ys = length xs"
    "\<forall>i < length xs. f (xs ! i) = Inr (ys ! i)" by auto
  have "\<forall>i < length (x # xs). f ((x # xs) ! i) = Inr ((y # ys) ! i)"
    using y ys(3) by (auto simp: nth_Cons split: nat.splits)
  then show ?case using y ys by auto
qed

text \<open>\<open>strings.Join\<close> writes the separator between the elements and nowhere else.\<close>

lemma Join_concat: "Join (c # cs) sep = c @ concat (map (\<lambda>x. sep @ x) cs)"
  by (induction cs arbitrary: c) simp_all

lemma Join_separated:
  "Join columns sep = (case columns of [] \<Rightarrow> [] | c # cs \<Rightarrow> c @ concat (map (\<lambda>x. sep @ x) cs))"
  by (cases columns) (simp_all add: Join_concat)

text \<open>The column definition of each type of the catalog, written out.\<close>

lemma columnSQL_catalog:
  "columnSQL column (Some (FieldTypeBool nullable dBool)) =
     Inr (column @ '' BOOL'' @ (if nullable then '' NULL'' else '' NOT NULL'')) \<and>
   columnSQL column (Some (FieldTypeDateTime nullable dTime minTime maxTime)) =
     Inr (column @ '' TIMESTAMP'' @ (if nullable then '' NULL'' else '' NOT NULL'')) \<and>
   columnSQL column (Some (FieldTypeEnum nullable enumValues dEnum)) =
     Inr (column @ '' TEXT'' @ (if nullable then '' NULL'' else '' NOT NULL'')) \<and>
   columnSQL column (Some (FieldTypeFloat nullable dFloat minFloat maxFloat)) =
     Inr (column @ '' REAL'' @ (if nullable then '' NULL'' else '' NOT NULL'')) \<and>
   columnSQL column (Some (FieldTypeId nullable primaryKey dId)) =
     Inr (column @ '' TEXT'' @ (if nullable \<or> primaryKey then '' NULL'' else '' NOT NULL'')
          @ (if primaryKey then '' PRIMARY KEY'' else [])) \<and>
   columnSQL column (Some (FieldTypeInt nullable dInt minInt maxInt)) =
     Inr (column @ '' BIGINT'' @ (if nullable then '' NULL'' else '' NOT NULL'')) \<and>
   columnSQL column (Some (FieldTypeSingleRelation nullable collection cascadeDelete)) =
     Inr (column @ '' TEXT'' @ (if nullable then '' NULL'' else '' NOT NULL'')
          @ '' REFERENCES '' @ collection @ ''(id)''
          @ (if cascadeDelete then '' ON DELETE CASCADE'' else [])) \<and>
   columnSQL column (Some (FieldTypeText nullable dText maxLength minLength pat)) =
     Inr (column @ '' TEXT'' @ (if nullable then '' NULL'' else '' NOT NULL''))"
  by (simp add: withNullConstraint_def Let_def)

text \<open>For a well-formed field pointer, \<open>columnSQL(field.Name, field.Schema.Type)\<close> is
  \<open>columnSQL\<close> of the name and the type the stores hold for it.\<close>

lemma wellFormedField_resolved:
  assumes "wellFormedField h field"
  shows "\<exists>a b t. field = Some a \<and> a < length (fieldStore h) \<and>
           Field_Schema (fieldStore h ! a) = Some b \<and> b < length (fieldSchemaStore h) \<and>
           FieldSchema_Type (fieldSchemaStore h ! b) = Some t \<and>
           fieldColumnSQL h field = columnSQL (Field_Name (fieldStore h ! a)) (Some t)"
proof -
  from assms obtain a where a: "field = Some a" "a < length (fieldStore h)"
    by (cases field) (auto simp: wellFormedField_def deref_def split: if_splits)
  from assms a obtain b where b: "Field_Schema (fieldStore h ! a) = Some b" "b < length (fieldSchemaStore h)"
    by (cases "Field_Schema (fieldStore h ! a)") (auto simp: wellFormedField_def deref_def split: if_splits)
  from assms a b obtain t where t: "FieldSchema_Type (fieldSchemaStore h ! b) = Some t"
    by (auto simp: wellFormedField_def deref_def)
  have "fieldColumnSQL h field = columnSQL (Field_Name (fieldStore h ! a)) (Some t)"
    by (simp add: fieldColumnSQL_def deref_def a b t)
  with a b t show ?thesis by blast
qed

text \<open>
  C5.  For a collection whose \<open>original\<close> is nil (and whose schema, fields, field schemas
  and field types are there), \<open>SaveCollection\<close> hands exactly one statement to the
  transaction and returns its error.  The statement is \<open>CREATE TABLE\<close>, the name of the
  collection and, in parentheses, a list \<open>columns\<close> separated by a comma and a space;
  the list has one element for each field of the schema, and its element \<open>i\<close> is
  \<open>columnSQL\<close> of the name and the type of field \<open>i\<close>.
\<close>

theorem SaveCollection_creates_table:
  assumes "Collection_original collection = None"
    and "deref (collectionSchemaStore h) (Collection_Schema collection) = Inr schema"
    and "\<forall>field \<in> set (Fields schema). wellFormedField h field"
  shows "\<exists>columns.
           length columns = length (Fields schema) \<and>
           (\<forall>i < length (Fields schema). \<exists>a b t.
              Fields schema ! i = Some a \<and> a < length (fieldStore h) \<and>
              Field_Schema (fieldStore h ! a) = Some b \<and> b < length (fieldSchemaStore h) \<and>
              FieldSchema_Type (fieldSchemaStore h ! b) = Some t \<and>
              columnSQL (Field_Name (fieldStore h ! a)) (Some t) = Inr (columns ! i)) \<and>
           SaveCollection run h tx collection =
             (tx @ [''CREATE TABLE '' @ Collection_Name collection @ '' (''
                    @ (case columns of [] \<Rightarrow> [] | c # cs \<Rightarrow> c @ concat (map (\<lambda>x. '', '' @ x) cs))
                    @ '')''],
              Inr (run tx (''CREATE TABLE '' @ Collection_Name collection @ '' (''
                    @ (case columns of [] \<Rightarrow> [] | c # cs \<Rightarrow> c @ concat (map (\<lambda>x. '', '' @ x) cs))
                    @ '')'')))"
proof -
  from assms(3) have "\<forall>field \<in> set (Fields schema). \<exists>column. fieldColumnSQL h field = Inr column"
    by (blast dest: wellFormedField_column)
  from collect_total [OF this] obtain columns where
    c: "collect (fieldColumnSQL h) (Fields schema) = Inr columns"
    and l: "length columns = length (Fields schema)"
    and n: "\<forall>i < length (Fields schema). fieldColumnSQL h (Fields schema ! i) = Inr (columns ! i)"
    by blast
  have r: "\<forall>i < length (Fields schema). \<exists>a b t.
              Fields schema ! i = Some a \<and> a < length (fieldStore h) \<and>
              Field_Schema (fieldStore h ! a) = Some b \<and> b < length (fieldSchemaStore h) \<and>
              FieldSchema_Type (fieldSchemaStore h ! b) = Some t \<and>
              columnSQL (Field_Name (fieldStore h ! a)) (Some t) = Inr (columns ! i)"
  proof (intro allI impI)
    fix i assume i: "i < length (Fields schema)"
    with assms(3) have "wellFormedField h (Fields schema ! i)" by simp
    from wellFormedField_resolved [OF this] n i
    show "\<exists>a b t.
              Fields schema ! i = Some a \<and> a < length (fieldStore h) \<and>
              Field_Schema (fieldStore h ! a) = Some b \<and> b < length (fieldSchemaStore h) \<and>
              FieldSchema_Type (fieldSchemaStore h ! b) = Some t \<and>
              columnSQL (Field_Name (fieldStore h ! a)) (Some t) = Inr (columns ! i)"
      by force
  qed
  have "SaveCollection run h tx collection =
             (tx @ [''CREATE TABLE '' @ Collection_Name collection @ '' (''
                    @ (case columns of [] \<Rightarrow> [] | c # cs \<Rightarrow> c @ concat (map (\<lambda>x. '', '' @ x) cs))
                    @ '')''],
              Inr (run tx (''CREATE TABLE '' @ Collection_Name collection @ '' (''
                    @ (case columns of [] \<Rightarrow> [] | c # cs \<Rightarrow> c @ concat (map (\<lambda>x. '', '' @ x) cs))
                    @ '')'')))"
    unfolding Join_separated [symmetric]
    by (simp add: SaveCollection_def createTable_def assms(1,2) c Exec_def Let_def)
  with l r show ?thesis by blast
qed

theorem SaveCollection_creates_table_witness:
  "SaveCollection accepting usersHeap [] usersCollection =
     ([''CREATE TABLE users (id TEXT NULL PRIMARY KEY, email TEXT NOT NULL, active BOOL NULL)''],
      Inr None)"
proof -
  let ?schema = "\<lparr>Fields = [Some 2, Some 0, Some 1], ViewFilter = None, AllowCreate = None,
          AllowUpdate = None, AllowDelete = None\<rparr>"
  have 1: "Collection_original usersCollection = None"
    by (simp add: usersCollection_def)
  have 2: "deref (collectionSchemaStore usersHeap) (Collection_Schema usersCollection) = Inr ?schema"
    by (simp add: usersCollection_def usersHeap_def deref_def)
  have 3: "\<forall>field \<in> set (Fields ?schema). wellFormedField usersHeap field"
    by (simp add: wellFormedField_def usersHeap_def deref_def)
  from SaveCollection_creates_table [OF 1 2 3, of accepting "[]"]
  obtain columns where c:
    "length columns = length (Fields ?schema) \<and>
     (\<forall>i < length (Fields ?schema). \<exists>a b t.
        Fields ?schema ! i = Some a \<and> a < length (fieldStore usersHeap) \<and>
        Field_Schema (fieldStore usersHeap ! a) = Some b \<and> b < length (fieldSchemaStore usersHeap) \<and>
        FieldSchema_Type (fieldSchemaStore usersHeap ! b) = Some t \<and>
        columnSQL (Field_Name (fieldStore usersHeap ! a)) (Some t) = Inr (columns ! i)) \<and>
     SaveCollection accepting usersHeap [] usersCollection =
       ([] @ [''CREATE TABLE '' @ Collection_Name usersCollection @ '' (''
              @ (case columns of [] \<Rightarrow> [] | c # cs \<Rightarrow> c @ concat (map (\<lambda>x. '', '' @ x) cs))
              @ '')''],
        Inr (accepting [] (''CREATE TABLE '' @ Collection_Name usersCollection @ '' (''
              @ (case columns of [] \<Rightarrow> [] | c # cs \<Rightarrow> c @ concat (map (\<lambda>x. '', '' @ x) cs))
              @ '')'')))"
    by (rule exE)
  from c have l: "length columns = 3" by simp
  from c have n: "\<And>i. i < 3 \<Longrightarrow> \<exists>a b t.
        [Some 2, Some 0, Some (1::nat)] ! i = Some a \<and> a < length (fieldStore usersHeap) \<and>
        Field_Schema (fieldStore usersHeap ! a) = Some b \<and> b < length (fieldSchemaStore usersHeap) \<and>
        FieldSchema_Type (fieldSchemaStore usersHeap ! b) = Some t \<and>
        columnSQL (Field_Name (fieldStore usersHeap ! a)) (Some t) = Inr (columns ! i)"
    by simp
  from c have s: "SaveCollection accepting usersHeap [] usersCollection =
       ([''CREATE TABLE '' @ Collection_Name usersCollection @ '' (''
              @ (case columns of [] \<Rightarrow> [] | c # cs \<Rightarrow> c @ concat (map (\<lambda>x. '', '' @ x) cs))
              @ '')''],
        Inr None)"
    by (simp add: accepting_def)
  from l obtain x y z where xyz: "columns = [x, y, z]"
    by (cases columns; cases "tl columns"; cases "tl (tl columns)") auto
  from n [of 0] have "x = ''id TEXT NULL PRIMARY KEY''"
    by (auto simp: xyz usersHeap_def withNullConstraint_def)
  moreover from n [of 1] have "y = ''email TEXT NOT NULL''"
    by (auto simp: xyz usersHeap_def withNullConstraint_def)
  moreover from n [of 2] have "z = ''active BOOL NULL''"
    by (auto simp: xyz usersHeap_def withNullConstraint_def)
  ultimately have "columns = [''id TEXT NULL PRIMARY KEY'', ''email TEXT NOT NULL'', ''active BOOL NULL'']"
    by (simp add: xyz)
  with s show ?thesis
    by (simp add: usersCollection_def)
qed

section \<open>Properties of \<open>Forward\<close> and of the diff\<close>

text \<open>The heap after \<open>Forward\<close> on the example collection.  The baseline collection (at
  address 1) has its own schema (at address 1), whose \<open>Fields\<close> holds the address of the
  live field, 0; the clones at the field addresses 1 and 2 are the one
  \<open>CollectionSchema.Clone\<close> made and dropped and the one \<open>Field.Forward\<close> stored.\<close>

lemma Forward_exampleHeap:
  "Collection_Forward exampleHeap (Some 0) = Inr
     \<lparr>collectionStore =
        [\<lparr>Collection_original = Some 1, Collection_Name = ''t'', Collection_Schema = Some 0\<rparr>,
         \<lparr>Collection_original = None, Collection_Name = ''t'', Collection_Schema = Some 1\<rparr>],
      collectionSchemaStore =
        [\<lparr>Fields = [Some 0], ViewFilter = None, AllowCreate = None, AllowUpdate = None,
          AllowDelete = None\<rparr>,
         \<lparr>Fields = [Some 0], ViewFilter = None, AllowCreate = None, AllowUpdate = None,
          AllowDelete = None\<rparr>],
      fieldStore =
        [\<lparr>Field_original = Some 2, Field_Name = ''a'', Field_Schema = Some 0\<rparr>,
         \<lparr>Field_original = None, Field_Name = ''a'', Field_Schema = Some 1\<rparr>,
         \<lparr>Field_original = None, Field_Name = ''a'', Field_Schema = Some 2\<rparr>],
      fieldSchemaStore =
        [\<lparr>FieldSchema_Type = Some (FieldTypeText False None None None None)\<rparr>,
         \<lparr>FieldSchema_Type = Some (FieldTypeText False None None None None)\<rparr>,
         \<lparr>FieldSchema_Type = Some (FieldTypeText False None None None None)\<rparr>]\<rparr>"
  by (simp add: Collection_Forward_def Collection_Clone_def CollectionSchema_Clone_def
      Field_Clone_def FieldSchema_Clone_def Field_Forward_def deref_def exampleHeap_def Let_def)

text \<open>\<open>lo.Filter\<close> panics when its predicate panics on an element, and only then.\<close>

lemma Filter_panics:
  assumes "x \<in> set xs" and "predicate x = Inl p"
  shows "\<exists>q. Filter xs predicate = Inl q"
  using assms by (induction xs) (auto split: sum.splits)

lemma Filter_panic_source:
  assumes "Filter xs predicate = Inl q"
  shows "\<exists>x \<in> set xs. predicate x = Inl q"
  using assms by (induction xs) (auto split: sum.splits if_splits)

text \<open>The filters of \<open>SaveCollection\<close> panic on nil pointers only.\<close>

lemma isCreateField_panic: "isCreateField h field = Inl p \<Longrightarrow> p = NilPointerDereference"
  by (auto simp: isCreateField_def deref_def split: sum.splits option.splits if_splits)

lemma isRenameField_panic: "isRenameField h field = Inl p \<Longrightarrow> p = NilPointerDereference"
  by (auto simp: isRenameField_def deref_def split: sum.splits option.splits if_splits)

text \<open>
  The state \<open>Forward\<close> leaves: the \<open>original\<close> of a field is a clone, and the \<open>original\<close> of
  a clone is nil.  On such a field the predicate of \<open>renameFields\<close> panics, and with it
  \<open>SaveCollection\<close> for every collection that has a baseline of the same name and such
  a field among its fields.
\<close>

lemma isRenameField_forwarded:
  assumes "deref (fieldStore h) field = Inr f"
    and "deref (fieldStore h) (Field_original f) = Inr original"
    and "Field_original original = None"
  shows "isRenameField h field = Inl NilPointerDereference"
  using assms by (simp add: isRenameField_def) (simp add: deref_def)

lemma alterColumns_panics:
  assumes s: "deref (collectionSchemaStore h) (Collection_Schema collection) = Inr schema"
    and m: "field \<in> set (Fields schema)"
    and r: "isRenameField h field = Inl NilPointerDereference"
  shows "alterColumns run h tx collection original = (tx, Inl NilPointerDereference)"
proof (cases "Filter (Fields schema) (isCreateField h)")
  case (Inl q)
  with Filter_panic_source [OF Inl] have "q = NilPointerDereference"
    by (blast dest: isCreateField_panic)
  with Inl show ?thesis by (simp add: alterColumns_def s)
next
  case (Inr createFields)
  from Filter_panics [of field "Fields schema" "isRenameField h", OF m r] obtain q where q: "Filter (Fields schema) (isRenameField h) = Inl q"
    by blast
  with Filter_panic_source [OF q] have "q = NilPointerDereference"
    by (blast dest: isRenameField_panic)
  with q Inr show ?thesis by (simp add: alterColumns_def s)
qed

lemma SaveCollection_panics_on_forwarded_field:
  assumes "deref (collectionStore h) (Collection_original collection) = Inr original"
    and "Collection_Name original = Collection_Name collection"
    and "deref (collectionSchemaStore h) (Collection_Schema collection) = Inr schema"
    and "field \<in> set (Fields schema)"
    and "deref (fieldStore h) field = Inr f"
    and "deref (fieldStore h) (Field_original f) = Inr forwarded"
    and "Field_original forwarded = None"
  shows "SaveCollection run h tx collection = (tx, Inl NilPointerDereference)"
proof -
  from assms(1) have "Collection_original collection \<noteq> None"
    by (auto simp: deref_def split: option.splits)
  moreover have "alterColumns run h tx collection original = (tx, Inl NilPointerDereference)"
    using assms(3,4) isRenameField_forwarded [OF assms(5,6,7)] by (rule alterColumns_panics)
  ultimately show ?thesis
    by (auto simp: SaveCollection_def assms(1,2))
qed

text \<open>
  The clone \<open>Field.Forward\<close> stores in the \<open>original\<close> slot of the field itself is a new
  object: renaming the field afterwards leaves the name the clone records.
\<close>

lemma Field_Clone_result:
  assumes "Field_Clone h f = Inr (c, h1)"
  shows "c = Some (length (fieldStore h)) \<and>
         fieldStore h1 = fieldStore h @
           [\<lparr>Field_original = None, Field_Name = Field_Name f,
             Field_Schema = Some (length (fieldSchemaStore h))\<rparr>]"
proof -
  from assms obtain s where s: "deref (fieldSchemaStore h) (Field_Schema f) = Inr s"
    by (cases "deref (fieldSchemaStore h) (Field_Schema f)") (simp_all add: Field_Clone_def)
  from assms s obtain t where t: "FieldSchema_Type s = Some t"
    by (cases "FieldSchema_Type s") (simp_all add: Field_Clone_def FieldSchema_Clone_def)
  from assms show ?thesis
    by (simp add: Field_Clone_def FieldSchema_Clone_def s t Let_def) auto
qed

lemma Field_original_independent:
  assumes fw: "Field_Forward h (Some a) = Inr h1" and sn: "Field_setName h1 (Some a) name = Inr h2"
  shows "Field_original (fieldStore h2 ! a) = Some (length (fieldStore h)) \<and>
         deref (fieldStore h2) (Some (length (fieldStore h))) =
           Inr \<lparr>Field_original = None, Field_Name = Field_Name (fieldStore h ! a),
                Field_Schema = Some (length (fieldSchemaStore h))\<rparr>"
proof -
  from fw have a: "a < length (fieldStore h)"
    by (simp add: Field_Forward_def split: if_splits)
  from fw a obtain c h' where c: "Field_Clone h (fieldStore h ! a) = Inr (c, h')"
    by (cases "Field_Clone h (fieldStore h ! a)") (auto simp: Field_Forward_def)
  from Field_Clone_result [OF c] have c': "c = Some (length (fieldStore h))"
    and st: "fieldStore h' = fieldStore h @
           [\<lparr>Field_original = None, Field_Name = Field_Name (fieldStore h ! a),
             Field_Schema = Some (length (fieldSchemaStore h))\<rparr>]"
    by simp_all
  from fw a c have h1: "fieldStore h1 = (fieldStore h')[a := (fieldStore h' ! a)\<lparr>Field_original := c\<rparr>]"
    by (auto simp: Field_Forward_def)
  from sn have h2: "fieldStore h2 = (fieldStore h1)[a := (fieldStore h1 ! a)\<lparr>Field_Name := name\<rparr>]"
    by (auto simp: Field_setName_def split: if_splits)
  show ?thesis
    using a by (simp add: h2 h1 st c' deref_def nth_append)
qed

subsection \<open>What \<open>Forward\<close> leaves on the heap\<close>

text \<open>The clones touch the stores of collections and collection schemas only by
  appending to them; \<open>Field.Forward\<close> appends one clone and rewrites the \<open>original\<close> of
  its receiver.\<close>

lemma Field_Clone_frame:
  assumes "Field_Clone h f = Inr (c, h1)"
  shows "collectionStore h1 = collectionStore h \<and> collectionSchemaStore h1 = collectionSchemaStore h"
proof -
  from assms obtain s where s: "deref (fieldSchemaStore h) (Field_Schema f) = Inr s"
    by (cases "deref (fieldSchemaStore h) (Field_Schema f)") (simp_all add: Field_Clone_def)
  from assms s obtain t where t: "FieldSchema_Type s = Some t"
    by (cases "FieldSchema_Type s") (simp_all add: Field_Clone_def FieldSchema_Clone_def)
  from assms show ?thesis
    by (simp add: Field_Clone_def FieldSchema_Clone_def s t Let_def) auto
qed

lemma Field_Forward_result:
  assumes "Field_Forward h fp = Inr h1"
  shows "\<exists>b. fp = Some b \<and> b < length (fieldStore h) \<and>
           collectionStore h1 = collectionStore h \<and>
           collectionSchemaStore h1 = collectionSchemaStore h \<and>
           fieldStore h1 =
             (fieldStore h @ [\<lparr>Field_original = None, Field_Name = Field_Name (fieldStore h ! b),
                               Field_Schema = Some (length (fieldSchemaStore h))\<rparr>])
               [b := (fieldStore h ! b)\<lparr>Field_original := Some (length (fieldStore h))\<rparr>]"
proof -
  from assms obtain b where b: "fp = Some b"
    by (cases fp) (simp_all add: Field_Forward_def)
  from assms b have lt: "b < length (fieldStore h)"
    by (simp add: Field_Forward_def split: if_splits)
  from assms b lt obtain c h' where c: "Field_Clone h (fieldStore h ! b) = Inr (c, h')"
    by (cases "Field_Clone h (fieldStore h ! b)") (auto simp: Field_Forward_def)
  note r = Field_Clone_result [OF c] and f = Field_Clone_frame [OF c]
  from assms b lt c have "h1 = h'\<lparr>fieldStore := (fieldStore h')[b := (fieldStore h' ! b)\<lparr>Field_original := c\<rparr>]\<rparr>"
    by (simp add: Field_Forward_def)
  with r f lt b show ?thesis
    by (simp add: nth_append)
qed

text \<open>
  The invariant of the loop over the fields.  With \<open>n\<close> the number of fields before
  \<open>Forward\<close>: every field at an address from \<open>n\<close> on is a clone and has no \<open>original\<close>, and
  every field forwarded so far (the addresses in \<open>B\<close>) has one of these clones as its
  \<open>original\<close>.
\<close>

lemma Field_Forward_invariant:
  assumes fw: "Field_Forward h fp = Inr h1"
    and fp: "\<exists>b. fp = Some b \<and> b < n"
    and n: "n \<le> length (fieldStore h)"
    and fresh: "\<forall>k. n \<le> k \<and> k < length (fieldStore h) \<longrightarrow> Field_original (fieldStore h ! k) = None"
    and fwd: "\<forall>b \<in> B. b < n \<and> (\<exists>k. Field_original (fieldStore h ! b) = Some k \<and> n \<le> k \<and> k < length (fieldStore h))"
  shows "collectionStore h1 = collectionStore h \<and>
         collectionSchemaStore h1 = collectionSchemaStore h \<and>
         n \<le> length (fieldStore h1) \<and>
         (\<forall>k. n \<le> k \<and> k < length (fieldStore h1) \<longrightarrow> Field_original (fieldStore h1 ! k) = None) \<and>
         (\<forall>b \<in> B \<union> {b. fp = Some b}.
            b < n \<and> (\<exists>k. Field_original (fieldStore h1 ! b) = Some k \<and> n \<le> k \<and> k < length (fieldStore h1)))"
proof -
  from Field_Forward_result [OF fw] obtain b where b: "fp = Some b" "b < length (fieldStore h)"
    and c: "collectionStore h1 = collectionStore h" "collectionSchemaStore h1 = collectionSchemaStore h"
    and st: "fieldStore h1 =
             (fieldStore h @ [\<lparr>Field_original = None, Field_Name = Field_Name (fieldStore h ! b),
                               Field_Schema = Some (length (fieldSchemaStore h))\<rparr>])
               [b := (fieldStore h ! b)\<lparr>Field_original := Some (length (fieldStore h))\<rparr>]"
    by blast
  from fp b have bn: "b < n" by simp
  have len: "length (fieldStore h1) = Suc (length (fieldStore h))"
    by (simp add: st)
  have 1: "\<forall>k. n \<le> k \<and> k < length (fieldStore h1) \<longrightarrow> Field_original (fieldStore h1 ! k) = None"
  proof (intro allI impI)
    fix k assume k: "n \<le> k \<and> k < length (fieldStore h1)"
    with bn have "k \<noteq> b" by simp
    with k fresh show "Field_original (fieldStore h1 ! k) = None"
      by (cases "k < length (fieldStore h)") (simp_all add: st len nth_append less_Suc_eq)
  qed
  have 2: "\<forall>b' \<in> B \<union> {b'. fp = Some b'}.
            b' < n \<and> (\<exists>k. Field_original (fieldStore h1 ! b') = Some k \<and> n \<le> k \<and> k < length (fieldStore h1))"
  proof
    fix b' assume "b' \<in> B \<union> {b'. fp = Some b'}"
    then consider "b' = b" | "b' \<in> B" "b' \<noteq> b" using b by auto
    then show "b' < n \<and> (\<exists>k. Field_original (fieldStore h1 ! b') = Some k \<and> n \<le> k \<and> k < length (fieldStore h1))"
    proof cases
      case 1
      with bn b n show ?thesis by (simp add: st len)
    next
      case 2
      with fwd have d: "b' < n" "\<exists>k. Field_original (fieldStore h ! b') = Some k \<and> n \<le> k \<and> k < length (fieldStore h)"
        by auto
      with n have "b' < length (fieldStore h)" by simp
      with d 2 show ?thesis by (auto simp: st len nth_append)
    qed
  qed
  from c n len 1 2 show ?thesis by simp
qed

lemma forwardFields_invariant:
  assumes "forwardFields h fps = Inr h1"
    and "\<forall>fp \<in> set fps. \<exists>b. fp = Some b \<and> b < n"
    and "n \<le> length (fieldStore h)"
    and "\<forall>k. n \<le> k \<and> k < length (fieldStore h) \<longrightarrow> Field_original (fieldStore h ! k) = None"
    and "\<forall>b \<in> B. b < n \<and> (\<exists>k. Field_original (fieldStore h ! b) = Some k \<and> n \<le> k \<and> k < length (fieldStore h))"
  shows "collectionStore h1 = collectionStore h \<and>
         collectionSchemaStore h1 = collectionSchemaStore h \<and>
         n \<le> length (fieldStore h1) \<and>
         (\<forall>k. n \<le> k \<and> k < length (fieldStore h1) \<longrightarrow> Field_original (fieldStore h1 ! k) = None) \<and>
         (\<forall>b \<in> B \<union> {b. Some b \<in> set fps}.
            b < n \<and> (\<exists>k. Field_original (fieldStore h1 ! b) = Some k \<and> n \<le> k \<and> k < length (fieldStore h1)))"
  using assms
proof (induction fps arbitrary: h B)
  case Nil
  then show ?case by simp
next
  case (Cons fp fps)
  from Cons.prems(1) obtain h' where fw: "Field_Forward h fp = Inr h'"
    and rest: "forwardFields h' fps = Inr h1"
    by (cases "Field_Forward h fp") simp_all
  from Cons.prems(2) have fp: "\<exists>b. fp = Some b \<and> b < n" and fps: "\<forall>fp \<in> set fps. \<exists>b. fp = Some b \<and> b < n"
    by simp_all
  note i = Field_Forward_invariant [OF fw fp Cons.prems(3,4,5)]
  from i have i1: "n \<le> length (fieldStore h')"
    and i2: "\<forall>k. n \<le> k \<and> k < length (fieldStore h') \<longrightarrow> Field_original (fieldStore h' ! k) = None"
    and i3: "\<forall>b \<in> B \<union> {b. fp = Some b}.
            b < n \<and> (\<exists>k. Field_original (fieldStore h' ! b) = Some k \<and> n \<le> k \<and> k < length (fieldStore h'))"
    by blast+
  note r = Cons.IH [OF rest fps i1 i2 i3]
  have "B \<union> {b. Some b \<in> set (fp # fps)} = (B \<union> {b. fp = Some b}) \<union> {b. Some b \<in> set fps}"
    by auto
  with r i show ?case by simp
qed

lemma forwardFields_frame:
  assumes "forwardFields h fps = Inr h1"
  shows "collectionStore h1 = collectionStore h \<and> collectionSchemaStore h1 = collectionSchemaStore h"
  using assms
proof (induction fps arbitrary: h)
  case Nil
  then show ?case by simp
next
  case (Cons fp fps)
  from Cons.prems obtain h' where fw: "Field_Forward h fp = Inr h'"
    and rest: "forwardFields h' fps = Inr h1"
    by (cases "Field_Forward h fp") simp_all
  from Field_Forward_result [OF fw] Cons.IH [OF rest] show ?case by auto
qed

lemma cloneFields_result:
  assumes "cloneFields h fps = Inr (cs, h1)"
  shows "collectionStore h1 = collectionStore h \<and>
         collectionSchemaStore h1 = collectionSchemaStore h \<and>
         (\<exists>ext. fieldStore h1 = fieldStore h @ ext \<and> (\<forall>f \<in> set ext. Field_original f = None))"
  using assms
proof (induction fps arbitrary: h cs)
  case Nil
  then show ?case by simp
next
  case (Cons fp fps)
  from Cons.prems obtain f where f: "deref (fieldStore h) fp = Inr f"
    by (cases "deref (fieldStore h) fp") simp_all
  from Cons.prems f obtain c h' where c: "Field_Clone h f = Inr (c, h')"
    by (cases "Field_Clone h f") auto
  from Cons.prems f c obtain cs' where rest: "cloneFields h' fps = Inr (cs', h1)"
    by (cases "cloneFields h' fps") auto
  from Field_Clone_result [OF c] Field_Clone_frame [OF c] Cons.IH [OF rest]
  show ?case by auto
qed

lemma Collection_Clone_result:
  assumes cl: "Collection_Clone h c = Inr (p, h1)"
    and s: "deref (collectionSchemaStore h) (Collection_Schema c) = Inr s"
  shows "p = Some (length (collectionStore h)) \<and>
         collectionStore h1 = collectionStore h @
           [\<lparr>Collection_original = None, Collection_Name = Collection_Name c,
             Collection_Schema = Some (length (collectionSchemaStore h))\<rparr>] \<and>
         collectionSchemaStore h1 = collectionSchemaStore h @ [s] \<and>
         (\<exists>ext. fieldStore h1 = fieldStore h @ ext \<and> (\<forall>f \<in> set ext. Field_original f = None))"
proof -
  from cl s obtain cs h' where cf: "cloneFields h (Fields s) = Inr (cs, h')"
    by (cases "cloneFields h (Fields s)") (auto simp: Collection_Clone_def CollectionSchema_Clone_def)
  from cl s cf have "p = Some (length (collectionStore h')) \<and>
      h1 = h'\<lparr>collectionSchemaStore := collectionSchemaStore h' @ [s],
              collectionStore := collectionStore h' @
                [\<lparr>Collection_original = None, Collection_Name = Collection_Name c,
                  Collection_Schema = Some (length (collectionSchemaStore h'))\<rparr>]\<rparr>"
    by (simp add: Collection_Clone_def CollectionSchema_Clone_def Let_def)
  with cloneFields_result [OF cf] show ?thesis by auto
qed

text \<open>The heap between the two statements of \<open>Collection.Forward\<close>.\<close>

lemma Collection_Forward_state:
  assumes fw: "Collection_Forward h (Some a) = Inr h1"
    and schema: "deref (collectionSchemaStore h) (Collection_Schema (collectionStore h ! a)) = Inr schema"
  obtains h2 where
    "a < length (collectionStore h)"
    "collectionStore h2 =
       (collectionStore h @
         [\<lparr>Collection_original = None, Collection_Name = Collection_Name (collectionStore h ! a),
           Collection_Schema = Some (length (collectionSchemaStore h))\<rparr>])
       [a := (collectionStore h ! a)\<lparr>Collection_original := Some (length (collectionStore h))\<rparr>]"
    "collectionSchemaStore h2 = collectionSchemaStore h @ [schema]"
    "\<exists>ext. fieldStore h2 = fieldStore h @ ext \<and> (\<forall>f \<in> set ext. Field_original f = None)"
    "forwardFields h2 (Fields schema) = Inr h1"
proof -
  let ?c = "collectionStore h ! a"
  from fw have a: "a < length (collectionStore h)"
    by (simp add: Collection_Forward_def split: if_splits)
  from fw a obtain p hc where cl: "Collection_Clone h ?c = Inr (p, hc)"
    by (cases "Collection_Clone h ?c") (auto simp: Collection_Forward_def)
  note r = Collection_Clone_result [OF cl schema]
  define h2 where
    "h2 = hc\<lparr>collectionStore := (collectionStore hc)[a := (collectionStore hc ! a)\<lparr>Collection_original := p\<rparr>]\<rparr>"
  have cs: "collectionStore h2 =
       (collectionStore h @
         [\<lparr>Collection_original = None, Collection_Name = Collection_Name ?c,
           Collection_Schema = Some (length (collectionSchemaStore h))\<rparr>])
       [a := ?c\<lparr>Collection_original := Some (length (collectionStore h))\<rparr>]"
    using r a by (simp add: h2_def nth_append)
  have ss: "collectionSchemaStore h2 = collectionSchemaStore h @ [schema]"
    using r by (simp add: h2_def)
  have fs: "\<exists>ext. fieldStore h2 = fieldStore h @ ext \<and> (\<forall>f \<in> set ext. Field_original f = None)"
    using r by (simp add: h2_def)
  have "Collection_Schema (collectionStore h2 ! a) = Collection_Schema ?c"
    using a by (simp add: cs)
  moreover have "deref (collectionSchemaStore h2) (Collection_Schema ?c) = Inr schema"
    using schema by (auto simp: ss deref_def nth_append split: option.splits if_splits)
  ultimately have d: "deref (collectionSchemaStore h2) (Collection_Schema (collectionStore h2 ! a)) = Inr schema"
    by simp
  from fw a cl have "forwardFields h2 (Fields schema) = Inr h1"
    using d unfolding h2_def by (simp add: Collection_Forward_def Let_def)
  with a cs ss fs show ?thesis by (rule that)
qed

text \<open>
  After \<open>Forward\<close> the baseline is a new collection with the name of the live one and a
  new schema, and this schema is the live schema as a value: its \<open>Fields\<close> are the very
  pointers of the live fields.
\<close>

lemma Forward_shares_fields:
  assumes fw: "Collection_Forward h (Some a) = Inr h1"
    and schema: "deref (collectionSchemaStore h) (Collection_Schema (collectionStore h ! a)) = Inr schema"
  shows "deref (collectionSchemaStore h1) (Collection_Schema (collectionStore h1 ! a)) = Inr schema \<and>
         Collection_Name (collectionStore h1 ! a) = Collection_Name (collectionStore h ! a) \<and>
         Collection_original (collectionStore h1 ! a) = Some (length (collectionStore h)) \<and>
         deref (collectionStore h1) (Some (length (collectionStore h))) =
           Inr \<lparr>Collection_original = None, Collection_Name = Collection_Name (collectionStore h ! a),
                Collection_Schema = Some (length (collectionSchemaStore h))\<rparr> \<and>
         deref (collectionSchemaStore h1) (Some (length (collectionSchemaStore h))) = Inr schema"
proof -
  from fw schema obtain h2 where a: "a < length (collectionStore h)"
    and cs: "collectionStore h2 =
       (collectionStore h @
         [\<lparr>Collection_original = None, Collection_Name = Collection_Name (collectionStore h ! a),
           Collection_Schema = Some (length (collectionSchemaStore h))\<rparr>])
       [a := (collectionStore h ! a)\<lparr>Collection_original := Some (length (collectionStore h))\<rparr>]"
    and ss: "collectionSchemaStore h2 = collectionSchemaStore h @ [schema]"
    and ff: "forwardFields h2 (Fields schema) = Inr h1"
    by (rule Collection_Forward_state)
  from forwardFields_frame [OF ff] have f: "collectionStore h1 = collectionStore h2"
    "collectionSchemaStore h1 = collectionSchemaStore h2" by simp_all
  have "deref (collectionSchemaStore h1) (Collection_Schema (collectionStore h ! a)) = Inr schema"
    using schema by (auto simp: f ss deref_def nth_append split: option.splits if_splits)
  then show ?thesis
    using a by (simp add: f cs ss deref_def nth_append)
qed

text \<open>After \<open>Forward\<close> every field of the collection has a clone as \<open>original\<close>, and the
  \<open>original\<close> of that clone is nil.\<close>

lemma Forward_leaves_clones:
  assumes fw: "Collection_Forward h (Some a) = Inr h1"
    and schema: "deref (collectionSchemaStore h) (Collection_Schema (collectionStore h ! a)) = Inr schema"
    and valid: "\<forall>fp \<in> set (Fields schema). \<exists>b. fp = Some b \<and> b < length (fieldStore h)"
  shows "\<forall>fp \<in> set (Fields schema).
           \<exists>b k. fp = Some b \<and> b < length (fieldStore h1) \<and>
                 Field_original (fieldStore h1 ! b) = Some k \<and> k < length (fieldStore h1) \<and>
                 Field_original (fieldStore h1 ! k) = None"
proof
  fix fp assume fp: "fp \<in> set (Fields schema)"
  let ?n = "length (fieldStore h)"
  from fw schema obtain h2 where
    fs: "\<exists>ext. fieldStore h2 = fieldStore h @ ext \<and> (\<forall>f \<in> set ext. Field_original f = None)"
    and ff: "forwardFields h2 (Fields schema) = Inr h1"
    by (rule Collection_Forward_state)
  from fs have n: "?n \<le> length (fieldStore h2)"
    and fresh: "\<forall>k. ?n \<le> k \<and> k < length (fieldStore h2) \<longrightarrow> Field_original (fieldStore h2 ! k) = None"
    by (auto simp: nth_append)
  have "\<forall>b \<in> {}. b < ?n \<and>
      (\<exists>k. Field_original (fieldStore h2 ! b) = Some k \<and> ?n \<le> k \<and> k < length (fieldStore h2))"
    by simp
  note inv = forwardFields_invariant [OF ff valid n fresh this]
  from fp valid obtain b where b: "fp = Some b" "b < ?n" by blast
  with fp inv obtain k where k: "Field_original (fieldStore h1 ! b) = Some k" "?n \<le> k"
    "k < length (fieldStore h1)" by auto
  with inv have "Field_original (fieldStore h1 ! k) = None" by simp
  moreover from inv b have "b < length (fieldStore h1)" by simp
  ultimately show "\<exists>b k. fp = Some b \<and> b < length (fieldStore h1) \<and>
                 Field_original (fieldStore h1 ! b) = Some k \<and> k < length (fieldStore h1) \<and>
                 Field_original (fieldStore h1 ! k) = None"
    using b k by blast
qed

text \<open>
  Hence \<open>SaveCollection\<close> panics on every forwarded collection that has a field, in the
  heap \<open>Forward\<close> left and in every heap that differs from it in the names and schemas
  of fields only; no statement reaches the transaction.
\<close>

lemma SaveCollection_panics_after_Forward:
  assumes fw: "Collection_Forward h (Some a) = Inr h1"
    and schema: "deref (collectionSchemaStore h) (Collection_Schema (collectionStore h ! a)) = Inr schema"
    and ne: "Fields schema \<noteq> []"
    and valid: "\<forall>fp \<in> set (Fields schema). \<exists>b. fp = Some b \<and> b < length (fieldStore h)"
    and same: "collectionStore h2 = collectionStore h1" "collectionSchemaStore h2 = collectionSchemaStore h1"
      "length (fieldStore h2) = length (fieldStore h1)"
      "\<forall>k < length (fieldStore h1). Field_original (fieldStore h2 ! k) = Field_original (fieldStore h1 ! k)"
  shows "a < length (collectionStore h2) \<and>
         SaveCollection run h2 tx (collectionStore h2 ! a) = (tx, Inl NilPointerDereference)"
proof -
  from ne obtain fp where fp: "fp \<in> set (Fields schema)" by (cases "Fields schema") auto
  with Forward_leaves_clones [OF fw schema valid] obtain b k where
    b: "fp = Some b" "b < length (fieldStore h1)"
    and k: "Field_original (fieldStore h1 ! b) = Some k" "k < length (fieldStore h1)"
    and k0: "Field_original (fieldStore h1 ! k) = None" by blast
  note sh = Forward_shares_fields [OF fw schema]
  from fw have a: "a < length (collectionStore h)"
    by (simp add: Collection_Forward_def split: if_splits)
  from sh have len: "a < length (collectionStore h2)"
    using a by (auto simp: same deref_def split: if_splits)
  have "SaveCollection run h2 tx (collectionStore h2 ! a) = (tx, Inl NilPointerDereference)"
  proof (rule SaveCollection_panics_on_forwarded_field)
    show "deref (collectionStore h2) (Collection_original (collectionStore h2 ! a)) =
            Inr \<lparr>Collection_original = None, Collection_Name = Collection_Name (collectionStore h ! a),
                Collection_Schema = Some (length (collectionSchemaStore h))\<rparr>"
      using sh by (simp add: same)
    show "Collection_Name \<lparr>Collection_original = None, Collection_Name = Collection_Name (collectionStore h ! a),
                Collection_Schema = Some (length (collectionSchemaStore h))\<rparr> =
          Collection_Name (collectionStore h2 ! a)"
      using sh by (simp add: same)
    show "deref (collectionSchemaStore h2) (Collection_Schema (collectionStore h2 ! a)) = Inr schema"
      using sh by (simp add: same)
    show "fp \<in> set (Fields schema)" by (rule fp)
    show "deref (fieldStore h2) fp = Inr (fieldStore h2 ! b)"
      using b by (simp add: deref_def same)
    show "deref (fieldStore h2) (Field_original (fieldStore h2 ! b)) = Inr (fieldStore h2 ! k)"
      using k b by (simp add: deref_def same)
    show "Field_original (fieldStore h2 ! k) = None" using k0 k by (simp add: same)
  qed
  with len show ?thesis by simp
qed

lemma Forward_then_SaveCollection_panics:
  assumes fw: "Collection_Forward h (Some a) = Inr h1"
    and schema: "deref (collectionSchemaStore h) (Collection_Schema (collectionStore h ! a)) = Inr schema"
    and ne: "Fields schema \<noteq> []"
    and valid: "\<forall>fp \<in> set (Fields schema). \<exists>b. fp = Some b \<and> b < length (fieldStore h)"
  shows "saveAfterForward run h tx (Some a) = (tx, Inl NilPointerDereference)"
  using SaveCollection_panics_after_Forward [OF fw schema ne valid, of h1 run tx] fw
  by (simp add: saveAfterForward_def deref_def)

text \<open>A forwarded collection without fields is the one case in which \<open>SaveCollection\<close>
  returns, with no statement and the nil error.\<close>

lemma Forward_then_SaveCollection_no_fields:
  assumes fw: "Collection_Forward h (Some a) = Inr h1"
    and schema: "deref (collectionSchemaStore h) (Collection_Schema (collectionStore h ! a)) = Inr schema"
    and empty: "Fields schema = []"
  shows "saveAfterForward run h tx (Some a) = (tx, Inr None)"
proof -
  note sh = Forward_shares_fields [OF fw schema]
  let ?clone = "\<lparr>Collection_original = None, Collection_Name = Collection_Name (collectionStore h ! a),
                 Collection_Schema = Some (length (collectionSchemaStore h))\<rparr>"
  from fw have a: "a < length (collectionStore h)"
    by (simp add: Collection_Forward_def split: if_splits)
  from sh a have len: "a < length (collectionStore h1)"
    by (auto simp: deref_def split: if_splits)
  have d1: "deref (collectionStore h1) (Collection_original (collectionStore h1 ! a)) = Inr ?clone"
    using sh by simp
  have d2: "deref (collectionSchemaStore h1) (Collection_Schema (collectionStore h1 ! a)) = Inr schema"
    using sh by simp
  have d3: "deref (collectionSchemaStore h1) (Collection_Schema ?clone) = Inr schema"
    using sh by simp
  have "alterColumns run h1 tx (collectionStore h1 ! a) ?clone = (tx, Inr None)"
    unfolding alterColumns_def d2 d3 by (simp add: empty)
  moreover have "Collection_original (collectionStore h1 ! a) \<noteq> None"
    using sh by simp
  moreover have "Collection_Name ?clone = Collection_Name (collectionStore h1 ! a)"
    using sh by simp
  ultimately have "SaveCollection run h1 tx (collectionStore h1 ! a) = (tx, Inr None)"
    unfolding SaveCollection_def d1 by auto
  with fw len show ?thesis
    by (simp add: saveAfterForward_def deref_def)
qed

lemma Field_setName_frame:
  assumes "Field_setName h field name = Inr h2"
  shows "collectionStore h2 = collectionStore h \<and> collectionSchemaStore h2 = collectionSchemaStore h \<and>
         length (fieldStore h2) = length (fieldStore h) \<and>
         (\<forall>k < length (fieldStore h). Field_original (fieldStore h2 ! k) = Field_original (fieldStore h ! k))"
proof -
  from assms obtain b where b: "field = Some b" "b < length (fieldStore h)"
    by (cases field) (auto simp: Field_setName_def split: if_splits)
  with assms have "h2 = h\<lparr>fieldStore := (fieldStore h)[b := (fieldStore h ! b)\<lparr>Field_Name := name\<rparr>]\<rparr>"
    by (simp add: Field_setName_def)
  with b show ?thesis by (auto simp: nth_list_update)
qed

lemma Field_setName_panic: "Field_setName h field name = Inl p \<Longrightarrow> p = NilPointerDereference"
  by (auto simp: Field_setName_def split: option.splits if_splits)

lemma Forward_rename_SaveCollection_panics:
  assumes fw: "Collection_Forward h (Some a) = Inr h1"
    and schema: "deref (collectionSchemaStore h) (Collection_Schema (collectionStore h ! a)) = Inr schema"
    and ne: "Fields schema \<noteq> []"
    and valid: "\<forall>fp \<in> set (Fields schema). \<exists>b. fp = Some b \<and> b < length (fieldStore h)"
  shows "saveAfterRename run h tx (Some a) field name = (tx, Inl NilPointerDereference)"
proof (cases "Field_setName h1 field name")
  case (Inl p)
  with Field_setName_panic [OF Inl] fw show ?thesis
    by (simp add: saveAfterRename_def)
next
  case (Inr h2)
  note f = Field_setName_frame [OF Inr]
  from f have "collectionStore h2 = collectionStore h1" "collectionSchemaStore h2 = collectionSchemaStore h1"
    "length (fieldStore h2) = length (fieldStore h1)"
    "\<forall>k < length (fieldStore h1). Field_original (fieldStore h2 ! k) = Field_original (fieldStore h1 ! k)"
    by simp_all
  from SaveCollection_panics_after_Forward [OF fw schema ne valid this, of run tx] fw Inr
  show ?thesis
    by (simp add: saveAfterRename_def deref_def)
qed

text \<open>The names the baseline records after a renaming are the names of the live
  fields after the renaming.\<close>

lemma baselineAfterRename_reads_live_fields:
  assumes fw: "Collection_Forward h (Some a) = Inr h1"
    and schema: "deref (collectionSchemaStore h) (Collection_Schema (collectionStore h ! a)) = Inr schema"
    and sn: "Field_setName h1 field name = Inr h2"
  shows "baselineAfterRename h (Some a) field name = collect (fieldName h2) (Fields schema)"
proof -
  note sh = Forward_shares_fields [OF fw schema] and f = Field_setName_frame [OF sn]
  from fw have a: "a < length (collectionStore h)"
    by (simp add: Collection_Forward_def split: if_splits)
  from sh a have len: "a < length (collectionStore h1)"
    by (auto simp: deref_def split: if_splits)
  let ?clone = "\<lparr>Collection_original = None, Collection_Name = Collection_Name (collectionStore h ! a),
                 Collection_Schema = Some (length (collectionSchemaStore h))\<rparr>"
  have d1: "deref (collectionStore h2) (Some a) = Inr (collectionStore h1 ! a)"
    using len by (simp add: deref_def f)
  have d2: "deref (collectionStore h2) (Collection_original (collectionStore h1 ! a)) = Inr ?clone"
    using sh by (simp add: f)
  have d3: "deref (collectionSchemaStore h2) (Collection_Schema ?clone) = Inr schema"
    using sh by (simp add: f)
  have "baselineFieldNames h2 (Some a) = collect (fieldName h2) (Fields schema)"
    unfolding baselineFieldNames_def d1 sum.case d2 d3 ..
  with fw sn show ?thesis
    by (simp add: baselineAfterRename_def)
qed

text \<open>
  C1.  \<open>Forward\<close> and then \<open>SaveCollection\<close> on the unchanged collection yields an empty
  list of operations.  The code does not return from \<open>SaveCollection\<close> here: the filter
  for \<open>renameFields\<close> reads \<open>field.original.original.Name\<close>, and the \<open>original\<close> of a clone is
  nil.  No statement has been executed when it panics.
\<close>

theorem SaveCollection_after_Forward_panics:
  "saveAfterForward accepting exampleHeap [] (Some 0) = ([], Inl NilPointerDereference)"
  unfolding saveAfterForward_def Forward_exampleHeap
  by (simp add: deref_def SaveCollection_def alterColumns_def isCreateField_def isRenameField_def)

text \<open>
  C3.  After \<open>Forward\<close> the baseline in the \<open>original\<close> slot of the collection is an
  independent deep clone: renaming a live field leaves the fields the baseline
  records unchanged.  The code does not do this: \<open>CollectionSchema.Clone\<close> returns a copy
  whose \<open>Fields\<close> are the pointers to the live fields, so after \<open>Forward\<close> and
  \<open>field.Name = "b"\<close> the baseline of the example collection records the name \<open>b\<close>.
\<close>

theorem baseline_shares_live_fields:
  "baselineAfterRename exampleHeap (Some 0) (Some 0) ''b'' = Inr [''b'']"
  unfolding baselineAfterRename_def Forward_exampleHeap
  by (simp add: deref_def Field_setName_def baselineFieldNames_def fieldName_def)

text \<open>
  C4.  A field whose baseline is named \<open>a\<close> and which is now named \<open>b\<close> gives exactly one
  \<open>RENAME COLUMN a TO b\<close>.  The code does not get there: after \<open>Forward\<close> and the renaming
  of the field of the example collection, \<open>SaveCollection\<close> panics in the filter for
  \<open>renameFields\<close>, before any statement.
\<close>

theorem SaveCollection_after_rename_panics:
  "saveAfterRename accepting exampleHeap [] (Some 0) (Some 0) ''b'' = ([], Inl NilPointerDereference)"
  unfolding saveAfterRename_def Forward_exampleHeap
  by (simp add: deref_def Field_setName_def SaveCollection_def alterColumns_def isCreateField_def
      isRenameField_def)

end
